theory Spec2Isabelle
  imports Main
begin

section \<open>Values of the Python runtime\<close>

text \<open>
  A Python string is kept as the bytes of its UTF-8 encoding: an ASCII character is one
  byte, any other character a sequence of two to four. Exceptions are values: the class that the
  \<^verbatim>\<open>except\<close> clauses test, and the message that \<^verbatim>\<open>str(e)\<close> gives.
  Only instances of \<^verbatim>\<open>Exception\<close> are modelled, which is what the handlers of both
  programs name.
\<close>

datatype exn_class =
  FileNotFoundError | JSONDecodeError | UnicodeDecodeError | IndexError | AttributeError
  | TypeError | EOFError | OtherException

datatype exn = Exn (exn_cls: exn_class) (exn_str: string)

text \<open>
  A Python float is only a carrier here: a sign, a mantissa and a binary exponent, an
  infinity with its sign, or a NaN. Nothing in the two programs computes with one; they
  are only printed, and the decimal text of a finite float is a parameter below.
\<close>

datatype pyfloat = Finite bool nat int | Infinite bool | NaN

text \<open>
  What \<^verbatim>\<open>json.load\<close> returns. A dict keeps its keys in insertion order, so it is an
  association list; a lookup takes the first entry of a key.
\<close>

datatype json =
  JNull
  | JBool bool
  | JInt int
  | JFloat pyfloat
  | JStr string
  | JList "json list"
  | JDict "(string \<times> json) list"

text \<open>
  The library functions the programs call and this development does not define:
  the JSON parser, the printing of floats and of quoted strings, \<^verbatim>\<open>str.lower\<close> on a
  string that is not all ASCII, and the tail of the message of a decoding error (which
  byte, where, and why).
\<close>

record pylib =
  json_loads :: "string \<Rightarrow> exn + json"
  float_repr :: "pyfloat \<Rightarrow> string"
  str_repr :: "string \<Rightarrow> string"
  json_encode_str :: "string \<Rightarrow> string"
  unicode_lower :: "string \<Rightarrow> string"
  utf8_error_detail :: "string \<Rightarrow> string"

subsection \<open>Characters\<close>

text \<open>
  The first byte of a character tells how many bytes it has. \<open>chars\<close> cuts a string
  into its characters, which is the sequence Python sees; \<open>code_point\<close> is the number
  of one character.
\<close>

definition utf8_width :: "char \<Rightarrow> nat" where
  "utf8_width b =
     (if (of_char b :: nat) < 0xC0 then 1
      else if (of_char b :: nat) < 0xE0 then 2
      else if (of_char b :: nat) < 0xF0 then 3
      else 4)"

function chars :: "string \<Rightarrow> string list" where
  "chars [] = []"
| "chars (b # bs) = take (utf8_width b) (b # bs) # chars (drop (utf8_width b) (b # bs))"
  by pat_completeness auto
termination
  by (relation "measure length") (auto simp add: utf8_width_def)

definition continuation :: "char \<Rightarrow> nat" where
  "continuation b = (of_char b :: nat) - 0x80"

definition code_point :: "string \<Rightarrow> nat" where
  "code_point ch =
     (case ch of
        [a] \<Rightarrow> (if (of_char a :: nat) < 0x80 then of_char a else 0xFFFD)
      | [a, b] \<Rightarrow> ((of_char a :: nat) - 0xC0) * 64 + continuation b
      | [a, b, c] \<Rightarrow>
          ((of_char a :: nat) - 0xE0) * 4096 + continuation b * 64 + continuation c
      | [a, b, c, d] \<Rightarrow>
          ((of_char a :: nat) - 0xF0) * 262144 + continuation b * 4096
          + continuation c * 64 + continuation d
      | _ \<Rightarrow> 0xFFFD)"

text \<open>
  The byte sequences that are the encoding of a character: no byte alone above
  \<open>0x7F\<close>, no overlong form, no surrogate, nothing above U+10FFFF.
\<close>

definition is_continuation :: "char \<Rightarrow> bool" where
  "is_continuation b = (0x80 \<le> (of_char b :: nat) \<and> (of_char b :: nat) \<le> 0xBF)"

definition between :: "nat \<Rightarrow> char \<Rightarrow> nat \<Rightarrow> bool" where
  "between lo b hi = (lo \<le> (of_char b :: nat) \<and> (of_char b :: nat) \<le> hi)"

definition well_formed :: "string \<Rightarrow> bool" where
  "well_formed ch =
     (case ch of
        [a] \<Rightarrow> (of_char a :: nat) < 0x80
      | [a, b] \<Rightarrow> between 0xC2 a 0xDF \<and> is_continuation b
      | [a, b, c] \<Rightarrow>
          (between 0xE0 a 0xE0 \<and> between 0xA0 b 0xBF
           \<or> between 0xE1 a 0xEC \<and> is_continuation b
           \<or> between 0xED a 0xED \<and> between 0x80 b 0x9F
           \<or> between 0xEE a 0xEF \<and> is_continuation b)
          \<and> is_continuation c
      | [a, b, c, d] \<Rightarrow>
          (between 0xF0 a 0xF0 \<and> between 0x90 b 0xBF
           \<or> between 0xF1 a 0xF3 \<and> is_continuation b
           \<or> between 0xF4 a 0xF4 \<and> between 0x80 b 0x8F)
          \<and> is_continuation c \<and> is_continuation d
      | _ \<Rightarrow> False)"

definition utf8_valid :: "string \<Rightarrow> bool" where
  "utf8_valid bytes = list_all well_formed (chars bytes)"

subsection \<open>Decimal numerals, \<^verbatim>\<open>str\<close> and \<^verbatim>\<open>repr\<close>\<close>

definition digit_char :: "nat \<Rightarrow> char" where
  "digit_char d = ''0123456789'' ! d"

function str_nat :: "nat \<Rightarrow> string" where
  "str_nat n = (if n < 10 then [digit_char n] else str_nat (n div 10) @ [digit_char (n mod 10)])"
  by pat_completeness auto
termination
  by (relation "measure id") auto

declare str_nat.simps [simp del]

definition str_int :: "int \<Rightarrow> string" where
  "str_int i = (if i < 0 then ''-'' @ str_nat (nat (- i)) else str_nat (nat i))"

definition join :: "string \<Rightarrow> string list \<Rightarrow> string" where
  "join sep xs = concat (case xs of [] \<Rightarrow> [] | y # ys \<Rightarrow> y # map (\<lambda>z. sep @ z) ys)"

text \<open>\<^verbatim>\<open>repr(v)\<close> of a loaded value: the elements of a list or a dict print by \<^verbatim>\<open>repr\<close>.\<close>

primrec py_repr :: "pylib \<Rightarrow> json \<Rightarrow> string" where
  "py_repr L JNull = ''None''"
| "py_repr L (JBool b) = (if b then ''True'' else ''False'')"
| "py_repr L (JInt i) = str_int i"
| "py_repr L (JFloat x) = float_repr L x"
| "py_repr L (JStr s) = str_repr L s"
| "py_repr L (JList xs) = ''['' @ join '', '' (map (py_repr L) xs) @ '']''"
| "py_repr L (JDict kvs) =
     ''{'' @ join '', '' (map (\<lambda>kv. str_repr L (fst kv) @ '': '' @ snd kv)
                            (map (map_prod id (py_repr L)) kvs)) @ ''}''"

text \<open>\<^verbatim>\<open>str(v)\<close>, which is what an f-string field prints: a string prints as itself.\<close>

definition py_str :: "pylib \<Rightarrow> json \<Rightarrow> string" where
  "py_str L v = (case v of JStr s \<Rightarrow> s | _ \<Rightarrow> py_repr L v)"

subsection \<open>\<^verbatim>\<open>json.dumps(v, indent=2)\<close>\<close>

text \<open>The encoder's \<^verbatim>\<open>floatstr\<close>, with \<^verbatim>\<open>allow_nan\<close> left at its default.\<close>

definition json_floatstr :: "pylib \<Rightarrow> pyfloat \<Rightarrow> string" where
  "json_floatstr L x =
     (case x of
        NaN \<Rightarrow> ''NaN''
      | Infinite negative \<Rightarrow> (if negative then ''-Infinity'' else ''Infinity'')
      | Finite negative m e \<Rightarrow> float_repr L x)"

definition newline_indent :: "nat \<Rightarrow> string" where
  "newline_indent level = ''\<newline>'' @ replicate (2 * level) CHR '' ''"

primrec dumps_at :: "pylib \<Rightarrow> json \<Rightarrow> nat \<Rightarrow> string" where
  "dumps_at L JNull = (\<lambda>level. ''null'')"
| "dumps_at L (JBool b) = (\<lambda>level. if b then ''true'' else ''false'')"
| "dumps_at L (JInt i) = (\<lambda>level. str_int i)"
| "dumps_at L (JFloat x) = (\<lambda>level. json_floatstr L x)"
| "dumps_at L (JStr s) = (\<lambda>level. json_encode_str L s)"
| "dumps_at L (JList xs) = (\<lambda>level.
     if xs = [] then ''[]''
     else ''['' @ newline_indent (Suc level)
          @ join ('','' @ newline_indent (Suc level)) (map (\<lambda>f. f (Suc level)) (map (dumps_at L) xs))
          @ newline_indent level @ '']'')"
| "dumps_at L (JDict kvs) = (\<lambda>level.
     if kvs = [] then ''{}''
     else ''{'' @ newline_indent (Suc level)
          @ join ('','' @ newline_indent (Suc level))
              (map (\<lambda>kf. json_encode_str L (fst kf) @ '': '' @ snd kf (Suc level))
                   (map (map_prod id (dumps_at L)) kvs))
          @ newline_indent level @ ''}'')"

definition json_dumps_indent2 :: "pylib \<Rightarrow> json \<Rightarrow> string" where
  "json_dumps_indent2 L v = dumps_at L v 0"

section \<open>The Tool Host: \<^verbatim>\<open>server.py\<close>\<close>

text \<open>
  The file system maps a path to the bytes of the file there; a path outside its domain
  is an absent file, where \<^verbatim>\<open>open(path, "r")\<close> raises \<^verbatim>\<open>FileNotFoundError\<close>. Other
  failures of \<^verbatim>\<open>open\<close> (permissions, a directory) are not modelled.
\<close>

type_synonym filesystem = "string \<rightharpoonup> string"

definition open_read :: "pylib \<Rightarrow> filesystem \<Rightarrow> string \<Rightarrow> exn + string" where
  "open_read L fs path =
     (case fs path of
        None \<Rightarrow> Inl (Exn FileNotFoundError
                 (''[Errno 2] No such file or directory: '' @ str_repr L path))
      | Some bytes \<Rightarrow> Inr bytes)"

text \<open>
  \<^verbatim>\<open>json.load(f)\<close> is \<^verbatim>\<open>json.loads(f.read())\<close>. The file was opened in text mode, so
  \<^verbatim>\<open>f.read()\<close> decodes the bytes, here as UTF-8, and raises \<^verbatim>\<open>UnicodeDecodeError\<close> on
  bytes that are no text; it gives every line end as a single newline.
\<close>

fun universal_newlines :: "string \<Rightarrow> string" where
  "universal_newlines (a # b # rest) =
     (if a = CHR 0x0D \<and> b = CHR 0x0A then CHR 0x0A # universal_newlines rest
      else if a = CHR 0x0D then CHR 0x0A # universal_newlines (b # rest)
      else a # universal_newlines (b # rest))"
| "universal_newlines [a] = (if a = CHR 0x0D then [CHR 0x0A] else [a])"
| "universal_newlines [] = []"

definition read_text :: "pylib \<Rightarrow> string \<Rightarrow> exn + string" where
  "read_text L bytes =
     (if utf8_valid bytes then Inr (universal_newlines bytes)
      else Inl (Exn UnicodeDecodeError
                  ([CHR 0x27] @ ''utf-8'' @ [CHR 0x27] @ '' codec can''
                   @ [CHR 0x27] @ ''t decode byte'' @ utf8_error_detail L bytes)))"

definition json_load :: "pylib \<Rightarrow> string \<Rightarrow> exn + json" where
  "json_load L bytes =
     (case read_text L bytes of
        Inl e \<Rightarrow> Inl e
      | Inr text \<Rightarrow> json_loads L text)"

text \<open>\<^verbatim>\<open>os.path.join\<close> on POSIX paths, for two and for three components.\<close>

definition path_join2 :: "string \<Rightarrow> string \<Rightarrow> string" where
  "path_join2 a b =
     (if b \<noteq> [] \<and> hd b = CHR ''/'' then b
      else if a = [] \<or> last a = CHR ''/'' then a @ b
      else a @ ''/'' @ b)"

definition os_path_join :: "string \<Rightarrow> string \<Rightarrow> string \<Rightarrow> string" where
  "os_path_join a b c = path_join2 (path_join2 a b) c"

text \<open>\<^verbatim>\<open>item.get(key, default)\<close>.\<close>

definition dict_get :: "(string \<times> json) list \<Rightarrow> string \<Rightarrow> json \<Rightarrow> json" where
  "dict_get d key dflt = (case map_of d key of None \<Rightarrow> dflt | Some v \<Rightarrow> v)"

text \<open>
  Lines 27 to 32: the question and the answer of the item at index \<open>i\<close>. Both branches
  bind Python values; the second binds two strings.
\<close>

definition kb_item :: "nat \<Rightarrow> json \<Rightarrow> json \<times> json" where
  "kb_item i item =
     (case item of
        JDict d \<Rightarrow> (dict_get d ''question'' (JStr ''No question provided''),
                     dict_get d ''answer'' (JStr ''No answer''))
      | _ \<Rightarrow> (JStr (''Item '' @ str_nat i), JStr (str_nat i)))"

text \<open>Line 33: the f-string appended for one item.\<close>

definition kb_entry :: "pylib \<Rightarrow> nat \<Rightarrow> json \<Rightarrow> string" where
  "kb_entry L i item =
     (case kb_item i item of
        (question, answer) \<Rightarrow>
          ''Q'' @ str_nat i @ '': '' @ py_str L question @ ''\<newline>''
          @ ''A'' @ str_nat i @ '': '' @ py_str L answer @ ''\<newline>\<newline>'')"

text \<open>The loop \<^verbatim>\<open>for i, item in enumerate(knowledge_base, 1)\<close>, on the text built so far.\<close>

fun kb_loop :: "pylib \<Rightarrow> nat \<Rightarrow> json list \<Rightarrow> string \<Rightarrow> string" where
  "kb_loop L i [] kb_text = kb_text"
| "kb_loop L i (item # rest) kb_text = kb_loop L (Suc i) rest (kb_text @ kb_entry L i item)"

definition kb_header :: string where
  "kb_header = ''Here is the retrieved knowledge base:\<newline>\<newline>''"

text \<open>The body of the \<^verbatim>\<open>try\<close> after the load, lines 23 to 38.\<close>

definition kb_render :: "pylib \<Rightarrow> json \<Rightarrow> string" where
  "kb_render L knowledge_base =
     (case knowledge_base of
        JList items \<Rightarrow> kb_loop L 1 items kb_header
      | _ \<Rightarrow> kb_header @ ''Knowledge base content: ''
                @ json_dumps_indent2 L knowledge_base @ ''\<newline>\<newline>'')"

text \<open>The three \<^verbatim>\<open>except\<close> clauses, tried in the order of the source.\<close>

definition kb_except :: "exn \<Rightarrow> string" where
  "kb_except e =
     (if exn_cls e = FileNotFoundError then ''Error: Knowledge base file not found.''
      else if exn_cls e = JSONDecodeError
        then ''Error: Invalid JSON format in knowledge base file.''
      else ''Error: '' @ exn_str e)"

text \<open>
  \<^verbatim>\<open>get_knowledge_base\<close>, given the file system and the directory of the module
  (\<^verbatim>\<open>os.path.dirname(__file__)\<close>).
\<close>

definition kb_file :: "string \<Rightarrow> string" where
  "kb_file module_dir = os_path_join module_dir ''data'' ''knowledge_base.json''"

definition get_knowledge_base :: "pylib \<Rightarrow> filesystem \<Rightarrow> string \<Rightarrow> string" where
  "get_knowledge_base L fs module_dir =
     (case open_read L fs (kb_file module_dir) of
        Inl e \<Rightarrow> kb_except e
      | Inr f \<Rightarrow>
          (case json_load L f of
             Inl e \<Rightarrow> kb_except e
           | Inr knowledge_base \<Rightarrow> kb_render L knowledge_base))"

section \<open>The Orchestrator: \<^verbatim>\<open>client.py\<close>\<close>

subsection \<open>Data of the two protocols\<close>

text \<open>A tool as the Tool Host lists it, and as the completion endpoint takes it.\<close>

record tool =
  tool_name :: string
  tool_description :: "string option"
  tool_inputSchema :: json

record tool_param =
  param_type :: string
  function_name :: string
  function_description :: "string option"
  function_parameters :: json

text \<open>
  A tool call of a model reply: \<^verbatim>\<open>tool_call.id\<close>, \<^verbatim>\<open>tool_call.function.name\<close> and
  \<^verbatim>\<open>tool_call.function.arguments\<close>, the last one JSON text.
\<close>

record tool_call =
  call_id :: string
  call_name :: string
  call_arguments :: string

text \<open>The message of a choice: both fields may be \<^verbatim>\<open>None\<close>.\<close>

record chat_message =
  content :: "string option"
  tool_calls :: "tool_call list option"

text \<open>
  An entry of \<^verbatim>\<open>messages\<close>: the user dict, the assistant's message object, or a tool dict
  with its \<^verbatim>\<open>tool_call_id\<close> and \<^verbatim>\<open>content\<close>.
\<close>

datatype message =
  UserMessage string
  | AssistantMessage chat_message
  | ToolMessage string string

record request =
  req_model :: string
  req_messages :: "message list"
  req_tools :: "tool_param list"
  req_tool_choice :: string

text \<open>
  An element of \<^verbatim>\<open>result.content\<close>: only a text element has the attribute \<^verbatim>\<open>text\<close>;
  any other element is kept by the name of its class.
\<close>

datatype content_item = TextContent string | NonTextContent string

text \<open>
  The calls that leave the process, each with what came back, and the entries into
  \<^verbatim>\<open>process_query\<close>: the trace is how the theorems speak about what was invoked, how
  often and in which order.
\<close>

datatype event =
  EvProcessQuery string
  | EvListTools "exn + tool list"
  | EvCreate request "exn + chat_message list"
  | EvCallTool string json "exn + content_item list"

text \<open>
  The Tool Host session and the completion endpoint are functions on a state \<open>'w\<close> of
  the world outside, about which nothing is assumed: they may answer differently each
  time, and they may raise.
\<close>

record 'w client_session =
  list_tools :: "'w \<Rightarrow> (exn + tool list) \<times> 'w"
  call_tool :: "string \<Rightarrow> json \<Rightarrow> 'w \<Rightarrow> (exn + content_item list) \<times> 'w"

record 'w client =
  session :: "'w client_session option"
  completions_create :: "request \<Rightarrow> 'w \<Rightarrow> (exn + chat_message list) \<times> 'w"
  model :: string

record 'w state =
  world :: 'w
  trace :: "event list"
  stdin :: "string list"
  stdout :: string

definition none_has_no_attribute :: "string \<Rightarrow> exn" where
  "none_has_no_attribute a =
     Exn AttributeError
       ([CHR 0x27] @ ''NoneType'' @ [CHR 0x27] @ '' object has no attribute ''
        @ [CHR 0x27] @ a @ [CHR 0x27])"

definition index_error :: exn where
  "index_error = Exn IndexError ''list index out of range''"

subsection \<open>The external calls, each recorded in the trace\<close>

definition session_list_tools :: "'w client \<Rightarrow> 'w state \<Rightarrow> (exn + tool list) \<times> 'w state" where
  "session_list_tools c s =
     (case session c of
        None \<Rightarrow> (Inl (none_has_no_attribute ''list_tools''), s)
      | Some sess \<Rightarrow>
          (case list_tools sess (world s) of
             (r, w) \<Rightarrow> (r, s\<lparr>world := w, trace := trace s @ [EvListTools r]\<rparr>)))"

text \<open>
  \<^verbatim>\<open>self.session.call_tool(name, arguments=json.loads(...))\<close>: the method is looked up,
  then the argument text is parsed, then the call is made.
\<close>

definition session_call_tool ::
  "'w client \<Rightarrow> pylib \<Rightarrow> tool_call \<Rightarrow> 'w state \<Rightarrow> (exn + content_item list) \<times> 'w state" where
  "session_call_tool c L tc s =
     (case session c of
        None \<Rightarrow> (Inl (none_has_no_attribute ''call_tool''), s)
      | Some sess \<Rightarrow>
          (case json_loads L (call_arguments tc) of
             Inl e \<Rightarrow> (Inl e, s)
           | Inr arguments \<Rightarrow>
               (case call_tool sess (call_name tc) arguments (world s) of
                  (r, w) \<Rightarrow>
                    (r, s\<lparr>world := w,
                          trace := trace s @ [EvCallTool (call_name tc) arguments r]\<rparr>))))"

definition chat_completions_create ::
  "'w client \<Rightarrow> request \<Rightarrow> 'w state \<Rightarrow> (exn + chat_message list) \<times> 'w state" where
  "chat_completions_create c req s =
     (case completions_create c req (world s) of
        (r, w) \<Rightarrow> (r, s\<lparr>world := w, trace := trace s @ [EvCreate req r]\<rparr>))"

subsection \<open>\<^verbatim>\<open>get_mcp_tools\<close>\<close>

definition openai_format :: "tool \<Rightarrow> tool_param" where
  "openai_format t =
     \<lparr>param_type = ''function'',
      function_name = tool_name t,
      function_description = tool_description t,
      function_parameters = tool_inputSchema t\<rparr>"

definition get_mcp_tools :: "'w client \<Rightarrow> 'w state \<Rightarrow> (exn + tool_param list) \<times> 'w state" where
  "get_mcp_tools c s =
     (case session_list_tools c s of
        (Inl e, s') \<Rightarrow> (Inl e, s')
      | (Inr tools_result, s') \<Rightarrow> (Inr (map openai_format tools_result), s'))"

subsection \<open>\<^verbatim>\<open>process_query\<close>\<close>

text \<open>\<^verbatim>\<open>result.content[0].text\<close>.\<close>

definition first_text :: "content_item list \<Rightarrow> exn + string" where
  "first_text cs =
     (case cs of
        [] \<Rightarrow> Inl index_error
      | TextContent t # _ \<Rightarrow> Inr t
      | NonTextContent cls # _ \<Rightarrow>
          Inl (Exn AttributeError
                 ([CHR 0x27] @ cls @ [CHR 0x27] @ '' object has no attribute ''
                  @ [CHR 0x27] @ ''text'' @ [CHR 0x27])))"

text \<open>
  The loop \<^verbatim>\<open>for tool_call in assistant_message.tool_calls\<close>: the tool is called and
  the tool message is appended; the first exception ends the loop.
\<close>

fun call_tools ::
  "'w client \<Rightarrow> pylib \<Rightarrow> tool_call list \<Rightarrow> message list \<Rightarrow> 'w state
     \<Rightarrow> (exn + message list) \<times> 'w state" where
  "call_tools c L [] messages s = (Inr messages, s)"
| "call_tools c L (tc # rest) messages s =
     (case session_call_tool c L tc s of
        (Inl e, s') \<Rightarrow> (Inl e, s')
      | (Inr result, s') \<Rightarrow>
          (case first_text result of
             Inl e \<Rightarrow> (Inl e, s')
           | Inr text \<Rightarrow>
               call_tools c L rest (messages @ [ToolMessage (call_id tc) text]) s'))"

text \<open>\<^verbatim>\<open>response.choices[0].message\<close>.\<close>

definition first_choice :: "chat_message list \<Rightarrow> exn + chat_message" where
  "first_choice choices = (case choices of [] \<Rightarrow> Inl index_error | m # _ \<Rightarrow> Inr m)"

definition process_query ::
  "'w client \<Rightarrow> pylib \<Rightarrow> string \<Rightarrow> 'w state \<Rightarrow> (exn + string option) \<times> 'w state" where
  "process_query c L query s0 =
     (case get_mcp_tools c (s0\<lparr>trace := trace s0 @ [EvProcessQuery query]\<rparr>) of
        (Inl e, s1) \<Rightarrow> (Inl e, s1)
      | (Inr tools, s1) \<Rightarrow>
          (case chat_completions_create c
                  \<lparr>req_model = model c, req_messages = [UserMessage query],
                   req_tools = tools, req_tool_choice = ''auto''\<rparr> s1 of
             (Inl e, s2) \<Rightarrow> (Inl e, s2)
           | (Inr choices, s2) \<Rightarrow>
               (case first_choice choices of
                  Inl e \<Rightarrow> (Inl e, s2)
                | Inr assistant_message \<Rightarrow>
                    (case tool_calls assistant_message of
                       Some (tc # rest) \<Rightarrow>
                         (case call_tools c L (tc # rest)
                                 [UserMessage query, AssistantMessage assistant_message] s2 of
                            (Inl e, s3) \<Rightarrow> (Inl e, s3)
                          | (Inr messages, s3) \<Rightarrow>
                              (case chat_completions_create c
                                      \<lparr>req_model = model c, req_messages = messages,
                                       req_tools = tools, req_tool_choice = ''none''\<rparr> s3 of
                                 (Inl e, s4) \<Rightarrow> (Inl e, s4)
                               | (Inr final_choices, s4) \<Rightarrow>
                                   (case first_choice final_choices of
                                      Inl e \<Rightarrow> (Inl e, s4)
                                    | Inr final_message \<Rightarrow> (Inr (content final_message), s4))))
                     | _ \<Rightarrow> (Inr (content assistant_message), s2)))))"

subsection \<open>\<^verbatim>\<open>chat_loop\<close>\<close>

text \<open>
  \<^verbatim>\<open>str.strip()\<close> removes the whitespace characters at both ends of the string. A
  character is whitespace when \<^verbatim>\<open>str.isspace\<close> holds for it, which the interpreter
  decides by its code point: tab to carriage return, the separators \<open>0x1C\<close> to
  \<open>0x1F\<close>, the space, and the spaces beyond ASCII.
\<close>

definition is_space :: "string \<Rightarrow> bool" where
  "is_space ch =
     (let cp = code_point ch
      in 0x09 \<le> cp \<and> cp \<le> 0x0D \<or> 0x1C \<le> cp \<and> cp \<le> 0x20
         \<or> cp = 0x85 \<or> cp = 0xA0 \<or> cp = 0x1680
         \<or> 0x2000 \<le> cp \<and> cp \<le> 0x200A
         \<or> cp = 0x2028 \<or> cp = 0x2029 \<or> cp = 0x202F \<or> cp = 0x205F \<or> cp = 0x3000)"

definition strip :: "string \<Rightarrow> string" where
  "strip s = concat (rev (dropWhile is_space (rev (dropWhile is_space (chars s)))))"

text \<open>
  \<^verbatim>\<open>str.lower()\<close>: on a string that is all ASCII only the letters \<open>A\<close> to \<open>Z\<close> change;
  on any other string the mapping is the library's.
\<close>

definition lower_char :: "char \<Rightarrow> char" where
  "lower_char ch =
     (case map_of (zip ''ABCDEFGHIJKLMNOPQRSTUVWXYZ'' ''abcdefghijklmnopqrstuvwxyz'') ch of
        None \<Rightarrow> ch
      | Some l \<Rightarrow> l)"

definition is_ascii :: "string \<Rightarrow> bool" where
  "is_ascii s = list_all (\<lambda>b. (of_char b :: nat) < 0x80) s"

definition lower :: "pylib \<Rightarrow> string \<Rightarrow> string" where
  "lower L s = (if is_ascii s then map lower_char s else unicode_lower L s)"

text \<open>
  \<^verbatim>\<open>input(prompt)\<close> writes the prompt and takes the next line of standard input, without
  its newline; at the end of the input it raises \<^verbatim>\<open>EOFError\<close>. \<^verbatim>\<open>print(x)\<close> writes
  \<open>x\<close> and a newline.
\<close>

definition py_input :: "string \<Rightarrow> 'w state \<Rightarrow> (exn + string) \<times> 'w state" where
  "py_input prompt s =
     (case stdin s of
        [] \<Rightarrow> (Inl (Exn EOFError ''EOF when reading a line''), s\<lparr>stdout := stdout s @ prompt\<rparr>)
      | line # rest \<Rightarrow> (Inr line, s\<lparr>stdin := rest, stdout := stdout s @ prompt\<rparr>))"

definition py_print :: "string \<Rightarrow> 'w state \<Rightarrow> 'w state" where
  "py_print x s = s\<lparr>stdout := stdout s @ x @ ''\<newline>''\<rparr>"

text \<open>\<^verbatim>\<open>"\nAnswer: " + response\<close>, which raises when \<^verbatim>\<open>response\<close> is \<^verbatim>\<open>None\<close>.\<close>

definition concat_answer :: "string option \<Rightarrow> exn + string" where
  "concat_answer response =
     (case response of
        None \<Rightarrow>
          Inl (Exn TypeError
                 (''can only concatenate str (not '' @ [CHR 0x22] @ ''NoneType''
                  @ [CHR 0x22] @ '') to str''))
      | Some r \<Rightarrow> Inr (''\<newline>Answer: '' @ r))"

text \<open>The body of the \<^verbatim>\<open>try\<close>: \<open>Inr True\<close> is \<^verbatim>\<open>break\<close>, \<open>Inr False\<close> the end of the body.\<close>

definition chat_try :: "'w client \<Rightarrow> pylib \<Rightarrow> 'w state \<Rightarrow> (exn + bool) \<times> 'w state" where
  "chat_try c L s =
     (case py_input ''\<newline>Query: '' s of
        (Inl e, s1) \<Rightarrow> (Inl e, s1)
      | (Inr line, s1) \<Rightarrow>
          (if lower L (strip line) = ''quit'' then (Inr True, py_print ''\<newline>Goodbye!'' s1)
           else
             (case process_query c L (strip line) s1 of
                (Inl e, s2) \<Rightarrow> (Inl e, s2)
              | (Inr response, s2) \<Rightarrow>
                  (case concat_answer response of
                     Inl e \<Rightarrow> (Inl e, s2)
                   | Inr text \<Rightarrow> (Inr False, py_print text s2)))))"

text \<open>The cross mark of the error line, U+274C, as its three bytes in UTF-8.\<close>

definition cross_mark :: string where
  "cross_mark = [CHR 0xE2, CHR 0x9D, CHR 0x8C]"

text \<open>One iteration: the \<^verbatim>\<open>try\<close> with its handler \<^verbatim>\<open>except Exception as e\<close>.\<close>

definition chat_iteration :: "'w client \<Rightarrow> pylib \<Rightarrow> 'w state \<Rightarrow> bool \<times> 'w state" where
  "chat_iteration c L s =
     (case chat_try c L s of
        (Inl e, s') \<Rightarrow> (False, py_print (''\<newline>'' @ cross_mark @ '' Error: '' @ exn_str e) s')
      | (Inr brk, s') \<Rightarrow> (brk, s'))"

text \<open>\<^verbatim>\<open>while True\<close>: the loop returns only through \<^verbatim>\<open>break\<close>; \<open>None\<close> is a loop that runs forever.\<close>

partial_function (option) chat_while :: "'w client \<Rightarrow> pylib \<Rightarrow> 'w state \<Rightarrow> 'w state option" where
  "chat_while c L s =
     (case chat_iteration c L s of
        (brk, s') \<Rightarrow> if brk then Some s' else chat_while c L s')"

definition chat_banner :: string where
  "chat_banner =
     ''\<newline>MCP Ollama Client Started! Type your queries or '' @ [CHR 0x27] @ ''quit''
     @ [CHR 0x27] @ '' to exit.''"

definition chat_loop :: "'w client \<Rightarrow> pylib \<Rightarrow> 'w state \<Rightarrow> 'w state option" where
  "chat_loop c L s = chat_while c L (py_print chat_banner s)"

section \<open>The properties, in the words of the specification\<close>

text \<open>The pattern \<^verbatim>\<open>Qk: <question>\nAk: <answer>\<close> of entry \<open>k\<close>.\<close>

definition qa_pattern :: "nat \<Rightarrow> string \<Rightarrow> string \<Rightarrow> string" where
  "qa_pattern k question answer =
     ''Q'' @ str_nat k @ '': '' @ question @ ''\<newline>'' @ ''A'' @ str_nat k @ '': '' @ answer"

text \<open>
  What entry \<open>k\<close> shows as its question and as its answer: the field of a record, its
  default when the record has no such field, and the position for anything that is not a
  record.
\<close>

definition shown_question :: "pylib \<Rightarrow> nat \<Rightarrow> json \<Rightarrow> string" where
  "shown_question L k item =
     (case item of
        JDict d \<Rightarrow>
          (case map_of d ''question'' of
             None \<Rightarrow> ''No question provided''
           | Some q \<Rightarrow> py_str L q)
      | _ \<Rightarrow> ''Item '' @ str_nat k)"

definition shown_answer :: "pylib \<Rightarrow> nat \<Rightarrow> json \<Rightarrow> string" where
  "shown_answer L k item =
     (case item of
        JDict d \<Rightarrow>
          (case map_of d ''answer'' of
             None \<Rightarrow> ''No answer''
           | Some a \<Rightarrow> py_str L a)
      | _ \<Rightarrow> str_nat k)"

text \<open>
  A word that is \<^verbatim>\<open>quit\<close> in some letter case, and the whitespace characters, each
  written as its bytes: the ten of ASCII, U+0085, U+00A0, U+1680, U+2000 to U+200A,
  U+2028, U+2029, U+202F, U+205F and U+3000.
\<close>

definition quit_in_any_case :: "string \<Rightarrow> bool" where
  "quit_in_any_case w =
     (w \<in> set (map (\<lambda>(a, b, c, d). [a, b, c, d])
                 (List.product ''qQ'' (List.product ''uU'' (List.product ''iI'' ''tT'')))))"

definition unicode_whitespace :: "string list" where
  "unicode_whitespace =
     [[CHR 0x09], [CHR 0x0A], [CHR 0x0B], [CHR 0x0C], [CHR 0x0D],
      [CHR 0x1C], [CHR 0x1D], [CHR 0x1E], [CHR 0x1F], [CHR 0x20],
      [CHR 0xC2, CHR 0x85], [CHR 0xC2, CHR 0xA0], [CHR 0xE1, CHR 0x9A, CHR 0x80],
      [CHR 0xE2, CHR 0x80, CHR 0x80], [CHR 0xE2, CHR 0x80, CHR 0x81],
      [CHR 0xE2, CHR 0x80, CHR 0x82], [CHR 0xE2, CHR 0x80, CHR 0x83],
      [CHR 0xE2, CHR 0x80, CHR 0x84], [CHR 0xE2, CHR 0x80, CHR 0x85],
      [CHR 0xE2, CHR 0x80, CHR 0x86], [CHR 0xE2, CHR 0x80, CHR 0x87],
      [CHR 0xE2, CHR 0x80, CHR 0x88], [CHR 0xE2, CHR 0x80, CHR 0x89],
      [CHR 0xE2, CHR 0x80, CHR 0x8A], [CHR 0xE2, CHR 0x80, CHR 0xA8],
      [CHR 0xE2, CHR 0x80, CHR 0xA9], [CHR 0xE2, CHR 0x80, CHR 0xAF],
      [CHR 0xE2, CHR 0x81, CHR 0x9F], [CHR 0xE3, CHR 0x80, CHR 0x80]]"

text \<open>The invocations of the Tool Host in a trace, in the order they were made.\<close>

fun is_invocation :: "event \<Rightarrow> bool" where
  "is_invocation (EvCallTool name arguments r) = True"
| "is_invocation ev = False"

definition invocations :: "event list \<Rightarrow> event list" where
  "invocations tr = filter is_invocation tr"

text \<open>The two completion requests of a query, over the tools the Tool Host listed.\<close>

abbreviation first_request :: "'w client \<Rightarrow> string \<Rightarrow> tool list \<Rightarrow> request" where
  "first_request c query tools \<equiv>
     \<lparr>req_model = model c, req_messages = [UserMessage query],
      req_tools = map openai_format tools, req_tool_choice = ''auto''\<rparr>"

abbreviation second_request :: "'w client \<Rightarrow> message list \<Rightarrow> tool list \<Rightarrow> request" where
  "second_request c messages tools \<equiv>
     \<lparr>req_model = model c, req_messages = messages,
      req_tools = map openai_format tools, req_tool_choice = ''none''\<rparr>"

text \<open>
  The Tool Host answering a list of calls one after the other, in the order of the list:
  each call meets the world that the call before it left. The result is what the
  host returned to each call, and the world after the last one.
\<close>

fun host_run ::
  "'w client_session \<Rightarrow> (string \<times> json) list \<Rightarrow> 'w
     \<Rightarrow> (exn + content_item list) list \<times> 'w" where
  "host_run sess [] w = ([], w)"
| "host_run sess ((name, arguments) # rest) w =
     (case call_tool sess name arguments w of
        (r, w1) \<Rightarrow> (case host_run sess rest w1 of (rs, w2) \<Rightarrow> (r # rs, w2)))"

text \<open>
  What the loop over the tool calls leaves behind for one call whose parsed arguments
  are \<open>a\<close> and whose result starts with the text element \<open>t\<close>: the event of the
  invocation, and the tool message.
\<close>

definition invocation_of :: "tool_call \<Rightarrow> json \<times> string \<times> content_item list \<Rightarrow> event" where
  "invocation_of tc r =
     (case r of (a, t, extra) \<Rightarrow> EvCallTool (call_name tc) a (Inr (TextContent t # extra)))"

definition tool_message_of :: "tool_call \<Rightarrow> json \<times> string \<times> content_item list \<Rightarrow> message" where
  "tool_message_of tc r = (case r of (a, t, extra) \<Rightarrow> ToolMessage (call_id tc) t)"

section \<open>A small instance, to run the definitions on\<close>

definition dq :: string where
  "dq = [CHR 0x22]"

definition demo_kb_text :: string where
  "demo_kb_text =
     ''[{'' @ dq @ ''question'' @ dq @ '': '' @ dq @ ''What is X?'' @ dq @ '', ''
     @ dq @ ''answer'' @ dq @ '': '' @ dq @ ''X is a letter.'' @ dq @ ''}, ''
     @ ''{'' @ dq @ ''question'' @ dq @ '': '' @ dq @ ''How many?'' @ dq @ '', ''
     @ dq @ ''answer'' @ dq @ '': 42}]''"

definition demo_kb :: json where
  "demo_kb =
     JList [JDict [(''question'', JStr ''What is X?''), (''answer'', JStr ''X is a letter.'')],
            JDict [(''question'', JStr ''How many?''), (''answer'', JInt 42)]]"

text \<open>
  The parser of the instance knows five texts and rejects every other one. Its one file
  that is no text is the single byte \<open>0xFF\<close>, so the decoding error always names that
  byte; the instance meets no string outside ASCII that it has to put in lower case.
\<close>

definition demo_loads :: "string \<Rightarrow> exn + json" where
  "demo_loads s =
     (if s = ''{}'' then Inr (JDict [])
      else if s = ''null'' then Inr JNull
      else if s = ''{'' @ dq @ ''a'' @ dq @ '': [1, null]}''
        then Inr (JDict [(''a'', JList [JInt 1, JNull])])
      else if s = ''[7, {}]'' then Inr (JList [JInt 7, JDict []])
      else if s = demo_kb_text then Inr demo_kb
      else Inl (Exn JSONDecodeError ''Expecting value: line 1 column 1 (char 0)''))"

definition demo_lib :: pylib where
  "demo_lib =
     \<lparr>json_loads = demo_loads,
      float_repr = (\<lambda>x. ''0.0''),
      str_repr = (\<lambda>s. [CHR 0x27] @ s @ [CHR 0x27]),
      json_encode_str = (\<lambda>s. dq @ s @ dq),
      unicode_lower = (\<lambda>s. s),
      utf8_error_detail = (\<lambda>bytes. '' 0xff in position 0: invalid start byte'')\<rparr>"

definition demo_fs :: "string \<Rightarrow> filesystem" where
  "demo_fs text = [''/srv/apps/data/knowledge_base.json'' \<mapsto> text]"

text \<open>
  A Tool Host that serves the knowledge base of the instance, and an endpoint that asks
  for one tool call, for two, for none, or fails, by the text of the query. The world
  counts the calls answered.
\<close>

definition demo_host_text :: string where
  "demo_host_text = get_knowledge_base demo_lib (demo_fs demo_kb_text) ''/srv/apps''"

definition demo_tool :: tool where
  "demo_tool =
     \<lparr>tool_name = ''get_knowledge_base'',
      tool_description = Some ''Retrieve the entire knowledge base as formatted string.'',
      tool_inputSchema = JDict [(''type'', JStr ''object''), (''properties'', JDict [])]\<rparr>"

definition demo_session :: "nat client_session" where
  "demo_session =
     \<lparr>list_tools = (\<lambda>w. (Inr [demo_tool], Suc w)),
      call_tool = (\<lambda>name arguments w.
        (if name = ''get_knowledge_base'' then Inr [TextContent demo_host_text]
         else Inr [TextContent (''Unknown tool: '' @ name)], Suc w))\<rparr>"

definition demo_call :: "string \<Rightarrow> string \<Rightarrow> tool_call" where
  "demo_call i name = \<lparr>call_id = i, call_name = name, call_arguments = ''{}''\<rparr>"

definition demo_create :: "request \<Rightarrow> nat \<Rightarrow> (exn + chat_message list) \<times> nat" where
  "demo_create req w =
     (if req_tool_choice req = ''none''
        then (Inr [\<lparr>content = Some ''X is a letter.'', tool_calls = None\<rparr>], Suc w)
      else if req_messages req = [UserMessage ''boom'']
        then (Inl (Exn OtherException ''Connection error.''), Suc w)
      else if req_messages req = [UserMessage ''hello'']
        then (Inr [\<lparr>content = Some ''Hi!'', tool_calls = Some []\<rparr>], Suc w)
      else if req_messages req = [UserMessage ''twice'']
        then (Inr [\<lparr>content = None,
                    tool_calls = Some [demo_call ''call_1'' ''get_knowledge_base'',
                                       demo_call ''call_2'' ''lookup'']\<rparr>], Suc w)
      else (Inr [\<lparr>content = None,
                  tool_calls = Some [demo_call ''call_1'' ''get_knowledge_base'']\<rparr>], Suc w))"

definition demo_client :: "nat client" where
  "demo_client =
     \<lparr>session = Some demo_session, completions_create = demo_create, model = ''llama3.1''\<rparr>"

definition demo_state :: "string list \<Rightarrow> nat state" where
  "demo_state lines = \<lparr>world = 0, trace = [], stdin = lines, stdout = []\<rparr>"

section \<open>The Tool Host: what \<^verbatim>\<open>get_knowledge_base\<close> returns\<close>

lemma kb_loop_entries:
  "kb_loop L i items acc = acc @ concat (map2 (kb_entry L) [i..<i + length items] items)"
proof (induction items arbitrary: i acc)
  case Nil
  then show ?case by simp
next
  case (Cons item rest)
  have "[i..<i + length (item # rest)] = i # [Suc i..<Suc i + length rest]"
    by (simp add: upt_rec)
  with Cons show ?case by simp
qed

lemma kb_entry_shown:
  "kb_entry L k item = qa_pattern k (shown_question L k item) (shown_answer L k item) @ ''\<newline>\<newline>''"
  by (simp add: kb_entry_def kb_item_def qa_pattern_def shown_question_def shown_answer_def
      dict_get_def py_str_def split: json.splits option.splits)

lemma get_knowledge_base_loaded:
  assumes "fs (kb_file dir) = Some bytes" and "json_load L bytes = Inr kb"
  shows "get_knowledge_base L fs dir = kb_render L kb"
  using assms by (simp add: get_knowledge_base_def open_read_def)

lemma kb_render_list:
  "kb_render L (JList items) =
     kb_header @ concat (map2 (kb_entry L) [1..<Suc (length items)] items)"
  by (simp add: kb_render_def kb_loop_entries)

lemma entries_of_records:
  assumes "list_all2 (\<lambda>item (q, a). \<exists>d. item = JDict d \<and> map_of d ''question'' = Some q
              \<and> map_of d ''answer'' = Some a) items qas"
  shows "map2 (kb_entry L) ks items =
         map2 (\<lambda>k (q, a). qa_pattern k (py_str L q) (py_str L a) @ ''\<newline>\<newline>'') ks qas"
  using assms
proof (induction items qas arbitrary: ks rule: list_all2_induct)
  case Nil
  show ?case by simp
next
  case (Cons item items qa qas)
  show ?case
  proof (cases ks)
    case Nil
    then show ?thesis by simp
  next
    case (Cons k ks')
    obtain q a where qa: "qa = (q, a)" by (cases qa)
    with Cons.hyps(1) obtain d where d: "item = JDict d" "map_of d ''question'' = Some q"
      "map_of d ''answer'' = Some a" by auto
    have "kb_entry L k item = qa_pattern k (py_str L q) (py_str L a) @ ''\<newline>\<newline>''"
      by (simp add: kb_entry_shown shown_question_def shown_answer_def d)
    with Cons.IH [of ks'] Cons qa show ?thesis by simp
  qed
qed

text \<open>A file that is all ASCII and has no carriage return is read as it is.\<close>

lemma ascii_width: "(of_char b :: nat) < 0x80 \<Longrightarrow> utf8_width b = 1"
  by (simp add: utf8_width_def)

lemma chars_ascii: "is_ascii s \<Longrightarrow> chars s = map (\<lambda>b. [b]) s"
  by (induction s) (simp_all add: is_ascii_def ascii_width)

lemma utf8_valid_ascii: "is_ascii s \<Longrightarrow> utf8_valid s"
  by (simp add: utf8_valid_def chars_ascii) (simp add: is_ascii_def list_all_iff well_formed_def)

lemma universal_newlines_id: "CHR 0x0D \<notin> set s \<Longrightarrow> universal_newlines s = s"
  by (induction s rule: universal_newlines.induct) auto

lemma json_load_ascii:
  "is_ascii s \<Longrightarrow> CHR 0x0D \<notin> set s \<Longrightarrow> json_load L s = json_loads L s"
  by (simp add: json_load_def read_text_def utf8_valid_ascii universal_newlines_id)

text \<open>Bytes that are no text: the load raises \<^verbatim>\<open>UnicodeDecodeError\<close>, whatever the parser.\<close>

lemma json_load_undecodable:
  "\<not> utf8_valid bytes \<Longrightarrow>
   json_load L bytes =
     Inl (Exn UnicodeDecodeError
            ([CHR 0x27] @ ''utf-8'' @ [CHR 0x27] @ '' codec can'' @ [CHR 0x27]
             @ ''t decode byte'' @ utf8_error_detail L bytes))"
  by (simp add: json_load_def read_text_def)

text \<open>Facts about the instance, for the runs below.\<close>

lemma demo_kb_file: "kb_file ''/srv/apps'' = ''/srv/apps/data/knowledge_base.json''"
  by (simp add: kb_file_def os_path_join_def path_join2_def)

lemma demo_loads_kb: "json_load demo_lib demo_kb_text = Inr demo_kb"
proof -
  have "is_ascii demo_kb_text" and "CHR 0x0D \<notin> set demo_kb_text"
    by (simp_all add: is_ascii_def demo_kb_text_def dq_def)
  then show ?thesis
    by (simp add: json_load_ascii) (simp add: demo_lib_def demo_loads_def demo_kb_text_def dq_def)
qed

lemma demo_loads_object:
  "json_load demo_lib (''{'' @ dq @ ''a'' @ dq @ '': [1, null]}'')
     = Inr (JDict [(''a'', JList [JInt 1, JNull])])"
proof -
  have "is_ascii (''{'' @ dq @ ''a'' @ dq @ '': [1, null]}'')"
    and "CHR 0x0D \<notin> set (''{'' @ dq @ ''a'' @ dq @ '': [1, null]}'')"
    by (simp_all add: is_ascii_def dq_def)
  then show ?thesis
    by (simp add: json_load_ascii) (simp add: demo_lib_def demo_loads_def dq_def)
qed

lemma demo_loads_mixed: "json_load demo_lib ''[7, {}]'' = Inr (JList [JInt 7, JDict []])"
proof -
  have "is_ascii ''[7, {}]''" and "CHR 0x0D \<notin> set ''[7, {}]''"
    by (simp_all add: is_ascii_def)
  then show ?thesis
    by (simp add: json_load_ascii) (simp add: demo_lib_def demo_loads_def dq_def)
qed

text \<open>
  Claim C4. When the store is a sequence of \<open>N\<close> records that each have a \<^verbatim>\<open>question\<close>
  and an \<^verbatim>\<open>answer\<close> field, the output is the heading followed by exactly \<open>N\<close> blocks,
  the \<open>k\<close>-th being the pattern \<^verbatim>\<open>Qk: <question>\nAk: <answer>\<close> of the \<open>k\<close>-th record and
  a blank line, for \<open>k\<close> from 1 to \<open>N\<close> in the order of the records. The list \<open>qas\<close> holds
  the two field values of each record; a field prints as \<^verbatim>\<open>str\<close> prints it.
\<close>

theorem get_knowledge_base_numbered_pairs:
  assumes "fs (kb_file dir) = Some bytes"
    and "json_load L bytes = Inr (JList items)"
    and "list_all2 (\<lambda>item (q, a). \<exists>d. item = JDict d \<and> map_of d ''question'' = Some q
              \<and> map_of d ''answer'' = Some a) items qas"
  shows "get_knowledge_base L fs dir =
         kb_header @ concat (map2 (\<lambda>k (q, a). qa_pattern k (py_str L q) (py_str L a) @ ''\<newline>\<newline>'')
                               [1..<Suc (length qas)] qas)"
proof -
  from assms(3) have "length items = length qas"
    by (rule list_all2_lengthD)
  with assms show ?thesis
    by (simp add: get_knowledge_base_loaded kb_render_list entries_of_records)
qed

theorem get_knowledge_base_numbered_pairs_witness:
  "get_knowledge_base demo_lib (demo_fs demo_kb_text) ''/srv/apps'' =
     ''Here is the retrieved knowledge base:\<newline>\<newline>''
     @ ''Q1: What is X?\<newline>A1: X is a letter.\<newline>\<newline>''
     @ ''Q2: How many?\<newline>A2: 42\<newline>\<newline>''"
proof -
  have present: "demo_fs demo_kb_text (kb_file ''/srv/apps'') = Some demo_kb_text"
    by (simp add: demo_fs_def demo_kb_file)
  have loaded: "json_load demo_lib demo_kb_text
      = Inr (JList [JDict [(''question'', JStr ''What is X?''), (''answer'', JStr ''X is a letter.'')],
            JDict [(''question'', JStr ''How many?''), (''answer'', JInt 42)]])"
    by (simp add: demo_loads_kb demo_kb_def)
  have records: "list_all2 (\<lambda>item (q, a). \<exists>d. item = JDict d \<and> map_of d ''question'' = Some q
              \<and> map_of d ''answer'' = Some a)
       [JDict [(''question'', JStr ''What is X?''), (''answer'', JStr ''X is a letter.'')],
            JDict [(''question'', JStr ''How many?''), (''answer'', JInt 42)]]
       [(JStr ''What is X?'', JStr ''X is a letter.''), (JStr ''How many?'', JInt 42)]"
    by simp
  have nums: "[1..<Suc (length [(JStr ''What is X?'', JStr ''X is a letter.''), (JStr ''How many?'', JInt 42)])] = [1, 2]"
    by (simp add: upt_rec)
  show ?thesis
    using get_knowledge_base_numbered_pairs
            [where fs = "demo_fs demo_kb_text" and dir = "''/srv/apps''", OF present loaded records]
    by (simp add: nums kb_header_def qa_pattern_def py_str_def str_int_def str_nat.simps digit_char_def)
qed


text \<open>
  Claim C5. When the loaded value is not a sequence, the output is, after the heading
  that every successful output starts with, the text \<^verbatim>\<open>Knowledge base content: \<close>
  directly followed by the dump of the loaded value with an indent of two, and a blank
  line.
\<close>

theorem get_knowledge_base_dump:
  assumes "fs (kb_file dir) = Some bytes"
    and "json_load L bytes = Inr knowledge_base"
    and "\<forall>items. knowledge_base \<noteq> JList items"
  shows "get_knowledge_base L fs dir =
         kb_header @ ''Knowledge base content: '' @ json_dumps_indent2 L knowledge_base
         @ ''\<newline>\<newline>''"
  using assms
  by (cases knowledge_base) (simp_all add: get_knowledge_base_loaded kb_render_def)

theorem get_knowledge_base_dump_witness:
  "get_knowledge_base demo_lib (demo_fs (''{'' @ dq @ ''a'' @ dq @ '': [1, null]}'')) ''/srv/apps'' =
     ''Here is the retrieved knowledge base:\<newline>\<newline>''
     @ ''Knowledge base content: {\<newline>''
     @ ''  '' @ dq @ ''a'' @ dq @ '': [\<newline>''
     @ ''    1,\<newline>''
     @ ''    null\<newline>''
     @ ''  ]\<newline>''
     @ ''}\<newline>\<newline>''"
proof -
  have present: "demo_fs (''{'' @ dq @ ''a'' @ dq @ '': [1, null]}'') (kb_file ''/srv/apps'')
      = Some (''{'' @ dq @ ''a'' @ dq @ '': [1, null]}'')"
    by (simp add: demo_fs_def demo_kb_file)
  have no_list: "\<forall>items. JDict [(''a'', JList [JInt 1, JNull])] \<noteq> JList items"
    by simp
  have dump: "json_dumps_indent2 demo_lib (JDict [(''a'', JList [JInt 1, JNull])])
      = ''{\<newline>  '' @ dq @ ''a'' @ dq @ '': [\<newline>    1,\<newline>    null\<newline>  ]\<newline>}''"
    by (simp add: json_dumps_indent2_def newline_indent_def join_def demo_lib_def str_int_def
        str_nat.simps digit_char_def numeral_2_eq_2 numeral_eq_Suc)
  show ?thesis
    using get_knowledge_base_dump
            [where fs = "demo_fs (''{'' @ dq @ ''a'' @ dq @ '': [1, null]}'')"
               and dir = "''/srv/apps''", OF present demo_loads_object no_list]
    by (simp add: dump kb_header_def)
qed

text \<open>
  Claim C6. When the backing file is absent, the function returns exactly the text
  \<^verbatim>\<open>Error: Knowledge base file not found.\<close>: the result is a string like any other, no
  exception leaves the function.
\<close>

theorem get_knowledge_base_missing_file:
  assumes "fs (kb_file dir) = None"
  shows "get_knowledge_base L fs dir = ''Error: Knowledge base file not found.''"
  using assms by (simp add: get_knowledge_base_def open_read_def kb_except_def)

theorem get_knowledge_base_missing_file_witness:
  "get_knowledge_base demo_lib Map.empty ''/srv/apps'' = ''Error: Knowledge base file not found.''"
proof -
  have absent: "(Map.empty :: filesystem) (kb_file ''/srv/apps'') = None"
    by simp
  show ?thesis
    using get_knowledge_base_missing_file
            [where fs = Map.empty and dir = "''/srv/apps''" and L = demo_lib, OF absent]
    by simp
qed

text \<open>
  Claim C7, as amended. When the backing file exists, its bytes are text (they decode
  as UTF-8), and the parser rejects that text with a \<^verbatim>\<open>JSONDecodeError\<close>, the function
  returns exactly the text \<^verbatim>\<open>Error: Invalid JSON format in knowledge base file.\<close>
\<close>

theorem get_knowledge_base_invalid_json:
  assumes "fs (kb_file dir) = Some bytes"
    and "utf8_valid bytes"
    and "json_loads L (universal_newlines bytes) = Inl e"
    and "exn_cls e = JSONDecodeError"
  shows "get_knowledge_base L fs dir = ''Error: Invalid JSON format in knowledge base file.''"
  using assms
  by (simp add: get_knowledge_base_def open_read_def json_load_def read_text_def kb_except_def)

theorem get_knowledge_base_invalid_json_witness:
  "get_knowledge_base demo_lib (demo_fs ''{oops'') ''/srv/apps''
     = ''Error: Invalid JSON format in knowledge base file.''"
proof -
  have present: "demo_fs ''{oops'' (kb_file ''/srv/apps'') = Some ''{oops''"
    by (simp add: demo_fs_def demo_kb_file)
  have decodes: "utf8_valid ''{oops''"
    by (rule utf8_valid_ascii) (simp add: is_ascii_def)
  have rejected: "json_loads demo_lib (universal_newlines ''{oops'')
      = Inl (Exn JSONDecodeError ''Expecting value: line 1 column 1 (char 0)'')"
    by (simp add: demo_lib_def demo_loads_def demo_kb_text_def dq_def)
  have cls: "exn_cls (Exn JSONDecodeError ''Expecting value: line 1 column 1 (char 0)'')
      = JSONDecodeError"
    by simp
  show ?thesis
    using get_knowledge_base_invalid_json
            [where fs = "demo_fs ''{oops''" and dir = "''/srv/apps''",
             OF present decodes rejected cls]
    by simp
qed

text \<open>
  The claim as it was stated fails on a file that exists and is no text at all, which
  is not parseable as JSON either: for the single byte \<open>0xFF\<close> the load raises
  \<^verbatim>\<open>UnicodeDecodeError\<close>, which is not a \<^verbatim>\<open>JSONDecodeError\<close>, and the last handler
  answers with the message of the exception.
\<close>

theorem get_knowledge_base_invalid_json_counterexample:
  "demo_fs [CHR 0xFF] (kb_file ''/srv/apps'') = Some [CHR 0xFF]
   \<and> json_load demo_lib [CHR 0xFF] =
       Inl (Exn UnicodeDecodeError
              ([CHR 0x27] @ ''utf-8'' @ [CHR 0x27] @ '' codec can'' @ [CHR 0x27]
               @ ''t decode byte 0xff in position 0: invalid start byte''))
   \<and> get_knowledge_base demo_lib (demo_fs [CHR 0xFF]) ''/srv/apps'' =
       ''Error: '' @ [CHR 0x27] @ ''utf-8'' @ [CHR 0x27] @ '' codec can'' @ [CHR 0x27]
       @ ''t decode byte 0xff in position 0: invalid start byte''
   \<and> get_knowledge_base demo_lib (demo_fs [CHR 0xFF]) ''/srv/apps'' \<noteq>
       ''Error: Invalid JSON format in knowledge base file.''"
proof -
  have present: "demo_fs [CHR 0xFF] (kb_file ''/srv/apps'') = Some [CHR 0xFF]"
    by (simp add: demo_fs_def demo_kb_file)
  have no_text: "\<not> utf8_valid [CHR 0xFF]"
    by (simp add: utf8_valid_def utf8_width_def well_formed_def)
  have load: "json_load demo_lib [CHR 0xFF] =
       Inl (Exn UnicodeDecodeError
              ([CHR 0x27] @ ''utf-8'' @ [CHR 0x27] @ '' codec can'' @ [CHR 0x27]
               @ ''t decode byte 0xff in position 0: invalid start byte''))"
    by (simp add: json_load_undecodable [OF no_text]) (simp add: demo_lib_def)
  have out: "get_knowledge_base demo_lib (demo_fs [CHR 0xFF]) ''/srv/apps'' =
       ''Error: '' @ [CHR 0x27] @ ''utf-8'' @ [CHR 0x27] @ '' codec can'' @ [CHR 0x27]
       @ ''t decode byte 0xff in position 0: invalid start byte''"
    by (simp add: get_knowledge_base_def open_read_def present load kb_except_def)
  from present load out show ?thesis
    by simp
qed

text \<open>
  Claim C10. When the store is a sequence, entry \<open>k\<close> of the output shows, for an
  element that is not a record, the question \<^verbatim>\<open>Item k\<close> and as answer the index \<open>k\<close> in
  decimal (not the element); for a record, the field \<^verbatim>\<open>question\<close> or else
  \<^verbatim>\<open>No question provided\<close>, and the field \<^verbatim>\<open>answer\<close> or else \<^verbatim>\<open>No answer\<close>. This is
  what \<open>shown_question\<close> and \<open>shown_answer\<close> say.
\<close>

theorem get_knowledge_base_defaults:
  assumes "fs (kb_file dir) = Some bytes"
    and "json_load L bytes = Inr (JList items)"
  shows "get_knowledge_base L fs dir =
         kb_header @ concat (map2 (\<lambda>k item. qa_pattern k (shown_question L k item)
                                            (shown_answer L k item) @ ''\<newline>\<newline>'')
                               [1..<Suc (length items)] items)"
proof -
  have "kb_entry L = (\<lambda>k item. qa_pattern k (shown_question L k item)
                                  (shown_answer L k item) @ ''\<newline>\<newline>'')"
    by (intro ext) (rule kb_entry_shown)
  with assms show ?thesis
    by (simp add: get_knowledge_base_loaded kb_render_list)
qed

theorem get_knowledge_base_defaults_witness:
  "get_knowledge_base demo_lib (demo_fs ''[7, {}]'') ''/srv/apps'' =
     ''Here is the retrieved knowledge base:\<newline>\<newline>''
     @ ''Q1: Item 1\<newline>A1: 1\<newline>\<newline>''
     @ ''Q2: No question provided\<newline>A2: No answer\<newline>\<newline>''"
proof -
  have present: "demo_fs ''[7, {}]'' (kb_file ''/srv/apps'') = Some ''[7, {}]''"
    by (simp add: demo_fs_def demo_kb_file)
  have nums: "[1..<Suc (length [JInt 7, JDict []])] = [1, 2]"
    by (simp add: upt_rec)
  show ?thesis
    using get_knowledge_base_defaults
            [where fs = "demo_fs ''[7, {}]''" and dir = "''/srv/apps''",
             OF present demo_loads_mixed]
    by (simp add: nums kb_header_def qa_pattern_def shown_question_def shown_answer_def
        str_nat.simps digit_char_def)
qed

section \<open>The Orchestrator: what \<^verbatim>\<open>process_query\<close> and \<^verbatim>\<open>chat_loop\<close> do\<close>

subsection \<open>The external calls and the loop over the tool calls\<close>

lemma invocations_append: "invocations (xs @ ys) = invocations xs @ invocations ys"
  by (simp add: invocations_def)

lemma get_mcp_tools_listed:
  assumes "session c = Some sess" and "list_tools sess (world s) = (Inr tools, w1)"
  shows "get_mcp_tools c s =
         (Inr (map openai_format tools), s\<lparr>world := w1, trace := trace s @ [EvListTools (Inr tools)]\<rparr>)"
  using assms by (simp add: get_mcp_tools_def session_list_tools_def)

lemma chat_completions_create_answered:
  assumes "completions_create c req (world s) = (r, w)"
  shows "chat_completions_create c req s = (r, s\<lparr>world := w, trace := trace s @ [EvCreate req r]\<rparr>)"
  using assms by (simp add: chat_completions_create_def)

text \<open>
  The loop over the tool calls, when every argument text parses and the host answers
  every call with a result that starts with a text: the calls reach the host in the
  order of the list, each in the world the one before it left.
\<close>

lemma call_tools_run:
  assumes "session c = Some sess"
    and "list_all2 (\<lambda>tc r. json_loads L (call_arguments tc) = Inr (fst r)) tcs rs"
    and "host_run sess (map2 (\<lambda>tc r. (call_name tc, fst r)) tcs rs) (world s) =
           (map (\<lambda>(a, t, extra). Inr (TextContent t # extra)) rs, w)"
  shows "call_tools c L tcs messages s =
           (Inr (messages @ map2 tool_message_of tcs rs),
            s\<lparr>world := w, trace := trace s @ map2 invocation_of tcs rs\<rparr>)"
  using assms(2,3)
proof (induction tcs rs arbitrary: messages s rule: list_all2_induct)
  case Nil
  then show ?case by simp
next
  case (Cons tc tcs r rs)
  obtain a t extra where r: "r = (a, t, extra)"
    by (cases r)
  obtain r1 w1 where host: "call_tool sess (call_name tc) a (world s) = (r1, w1)"
    by (cases "call_tool sess (call_name tc) a (world s)")
  obtain rest w' where later:
    "host_run sess (map2 (\<lambda>tc r. (call_name tc, fst r)) tcs rs) w1 = (rest, w')"
    by (cases "host_run sess (map2 (\<lambda>tc r. (call_name tc, fst r)) tcs rs) w1")
  from Cons.prems r host later
  have r1: "r1 = Inr (TextContent t # extra)"
    and rest: "rest = map (\<lambda>(a, t, extra). Inr (TextContent t # extra)) rs"
    and w': "w' = w"
    by simp_all
  let ?s1 = "s\<lparr>world := w1,
                trace := trace s @ [EvCallTool (call_name tc) a (Inr (TextContent t # extra))]\<rparr>"
  from Cons.hyps(1) r have parsed: "json_loads L (call_arguments tc) = Inr a"
    by simp
  have called: "session_call_tool c L tc s = (Inr (TextContent t # extra), ?s1)"
    by (simp add: session_call_tool_def assms(1) parsed host r1)
  have "host_run sess (map2 (\<lambda>tc r. (call_name tc, fst r)) tcs rs) (world ?s1) =
          (map (\<lambda>(a, t, extra). Inr (TextContent t # extra)) rs, w)"
    using later rest w' by simp
  from Cons.IH [OF this, of "messages @ [ToolMessage (call_id tc) t]"]
  show ?case
    by (simp add: called first_text_def r invocation_of_def tool_message_of_def)
qed

lemma process_query_with_calls:
  assumes "session c = Some sess"
    and "list_tools sess (world s) = (Inr tools, w1)"
    and "completions_create c (first_request c query tools) w1 = (Inr (m # others), w2)"
    and "tool_calls m = Some tcs" and "tcs \<noteq> []"
  shows "process_query c L query s =
     (case call_tools c L tcs [UserMessage query, AssistantMessage m]
             (s\<lparr>world := w2,
                trace := trace s @ [EvProcessQuery query, EvListTools (Inr tools),
                                    EvCreate (first_request c query tools) (Inr (m # others))]\<rparr>) of
        (Inl e, s3) \<Rightarrow> (Inl e, s3)
      | (Inr messages, s3) \<Rightarrow>
          (case chat_completions_create c (second_request c messages tools) s3 of
             (Inl e, s4) \<Rightarrow> (Inl e, s4)
           | (Inr final_choices, s4) \<Rightarrow>
               (case first_choice final_choices of
                  Inl e \<Rightarrow> (Inl e, s4)
                | Inr final_message \<Rightarrow> (Inr (content final_message), s4))))"
proof -
  from assms(5) obtain tc rest where "tcs = tc # rest"
    by (cases tcs) auto
  with assms(3,4) show ?thesis
    by (simp add: process_query_def get_mcp_tools_listed [OF assms(1)] assms(2)
        chat_completions_create_answered first_choice_def)
qed

subsection \<open>The console is left to the loop\<close>

text \<open>Nothing below \<^verbatim>\<open>chat_loop\<close> reads the input or prints.\<close>

lemma session_list_tools_console:
  "session_list_tools c s = (r, s') \<Longrightarrow> stdin s' = stdin s \<and> stdout s' = stdout s"
  by (auto simp add: session_list_tools_def split: option.splits prod.splits)

lemma get_mcp_tools_console:
  "get_mcp_tools c s = (r, s') \<Longrightarrow> stdin s' = stdin s \<and> stdout s' = stdout s"
  by (auto simp add: get_mcp_tools_def split: prod.splits sum.splits
      dest: session_list_tools_console)

lemma chat_completions_create_console:
  "chat_completions_create c req s = (r, s') \<Longrightarrow> stdin s' = stdin s \<and> stdout s' = stdout s"
  by (auto simp add: chat_completions_create_def split: prod.splits)

lemma session_call_tool_console:
  "session_call_tool c L tc s = (r, s') \<Longrightarrow> stdin s' = stdin s \<and> stdout s' = stdout s"
  by (auto simp add: session_call_tool_def split: option.splits sum.splits prod.splits)

lemma call_tools_console:
  "call_tools c L tcs messages s = (r, s') \<Longrightarrow> stdin s' = stdin s \<and> stdout s' = stdout s"
proof (induction tcs arbitrary: messages s)
  case Nil
  then show ?case by simp
next
  case (Cons tc rest)
  obtain r1 s1 where call: "session_call_tool c L tc s = (r1, s1)"
    by (cases "session_call_tool c L tc s")
  note s1 = session_call_tool_console [OF call]
  show ?case
  proof (cases r1)
    case (Inl e)
    with Cons.prems call s1 show ?thesis by simp
  next
    case result: (Inr result)
    show ?thesis
    proof (cases "first_text result")
      case (Inl e)
      with Cons.prems call result s1 show ?thesis by simp
    next
      case first: (Inr t)
      with Cons.prems call result
      have "call_tools c L rest (messages @ [ToolMessage (call_id tc) t]) s1 = (r, s')"
        by simp
      from Cons.IH [OF this] s1 show ?thesis by simp
    qed
  qed
qed

lemma process_query_console:
  assumes "process_query c L query s = (r, s')"
  shows "stdin s' = stdin s \<and> stdout s' = stdout s"
proof -
  let ?s0 = "s\<lparr>trace := trace s @ [EvProcessQuery query]\<rparr>"
  obtain r1 s1 where tools: "get_mcp_tools c ?s0 = (r1, s1)"
    by (cases "get_mcp_tools c ?s0")
  from get_mcp_tools_console [OF tools] have s1: "stdin s1 = stdin s" "stdout s1 = stdout s"
    by simp_all
  show ?thesis
  proof (cases r1)
    case (Inl e)
    with assms tools s1 show ?thesis by (simp add: process_query_def)
  next
    case listed: (Inr tools_list)
    let ?req = "\<lparr>req_model = model c, req_messages = [UserMessage query],
                   req_tools = tools_list, req_tool_choice = ''auto''\<rparr>"
    obtain r2 s2 where first: "chat_completions_create c ?req s1 = (r2, s2)"
      by (cases "chat_completions_create c ?req s1")
    from chat_completions_create_console [OF first] s1
    have s2: "stdin s2 = stdin s" "stdout s2 = stdout s"
      by simp_all
    show ?thesis
    proof (cases r2)
      case (Inl e)
      with assms tools listed first s2 show ?thesis by (simp add: process_query_def)
    next
      case choices: (Inr choices)
      show ?thesis
      proof (cases "first_choice choices")
        case (Inl e)
        with assms tools listed first choices s2 show ?thesis by (simp add: process_query_def)
      next
        case message: (Inr m)
        show ?thesis
        proof (cases "\<exists>tc rest. tool_calls m = Some (tc # rest)")
          case False
          with assms tools listed first choices message s2 show ?thesis
            by (auto simp add: process_query_def split: option.splits list.splits)
        next
          case True
          then obtain tc rest where tcs: "tool_calls m = Some (tc # rest)"
            by blast
          obtain r3 s3 where loop:
            "call_tools c L (tc # rest) [UserMessage query, AssistantMessage m] s2 = (r3, s3)"
            by (cases "call_tools c L (tc # rest) [UserMessage query, AssistantMessage m] s2")
          from call_tools_console [OF loop] s2
          have s3: "stdin s3 = stdin s" "stdout s3 = stdout s"
            by simp_all
          show ?thesis
          proof (cases r3)
            case (Inl e)
            with assms tools listed first choices message tcs loop s3 show ?thesis
              by (simp add: process_query_def)
          next
            case messages: (Inr messages)
            let ?req2 = "\<lparr>req_model = model c, req_messages = messages,
                   req_tools = tools_list, req_tool_choice = ''none''\<rparr>"
            obtain r4 s4 where final: "chat_completions_create c ?req2 s3 = (r4, s4)"
              by (cases "chat_completions_create c ?req2 s3")
            from chat_completions_create_console [OF final] s3
            have s4: "stdin s4 = stdin s" "stdout s4 = stdout s"
              by simp_all
            from assms tools listed first choices message tcs loop messages final s4
            show ?thesis
              by (auto simp add: process_query_def split: sum.splits)
          qed
        qed
      qed
    qed
  qed
qed

subsection \<open>The quit command and the steps of the loop\<close>

text \<open>
  Each whitespace character of the list is one character to \<open>chars\<close> and whitespace to
  \<open>is_space\<close>, so \<open>strip\<close> removes any run of them at either end.
\<close>

lemma whitespace_character:
  assumes "x \<in> set unicode_whitespace"
  shows "x \<noteq> [] \<and> utf8_width (hd x) = length x \<and> is_space x"
  using assms
  by (auto simp add: unicode_whitespace_def utf8_width_def is_space_def code_point_def
      continuation_def)

lemma chars_character:
  assumes "x \<noteq> []" and "utf8_width (hd x) = length x"
  shows "chars (x @ s) = x # chars s"
  using assms by (cases x) simp_all

lemma chars_whitespace:
  "set ws \<subseteq> set unicode_whitespace \<Longrightarrow> chars (concat ws @ s) = ws @ chars s"
proof (induction ws)
  case Nil
  show ?case by simp
next
  case (Cons x ws)
  from Cons.prems whitespace_character [of x]
  have "chars (x @ concat ws @ s) = x # chars (concat ws @ s)"
    by (intro chars_character) simp_all
  with Cons show ?case by simp
qed

lemma chars_ascii_append: "is_ascii w \<Longrightarrow> chars (w @ s) = map (\<lambda>b. [b]) w @ chars s"
  by (induction w) (simp_all add: is_ascii_def ascii_width)

lemma quit_in_any_case_word:
  assumes "quit_in_any_case w"
  shows "is_ascii w \<and> lower L w = ''quit'' \<and> w \<noteq> []
         \<and> \<not> is_space [hd w] \<and> \<not> is_space [last w]"
  using assms
  by (auto simp add: quit_in_any_case_def lower_def is_ascii_def lower_char_def is_space_def
      code_point_def)

lemma strip_surrounded:
  assumes "set pre \<subseteq> set unicode_whitespace" and "set post \<subseteq> set unicode_whitespace"
    and "is_ascii w" and "w \<noteq> []" and "\<not> is_space [hd w]" and "\<not> is_space [last w]"
  shows "strip (concat pre @ w @ concat post) = w"
proof -
  let ?w = "map (\<lambda>b. [b]) w"
  from chars_whitespace [OF assms(2), of "[]"] have "chars (concat post) = post"
    by simp
  with assms(1,3) have split: "chars (concat pre @ w @ concat post) = pre @ ?w @ post"
    by (simp add: chars_whitespace chars_ascii_append)
  from assms(1) whitespace_character
  have "dropWhile is_space (pre @ ?w @ post) = dropWhile is_space (?w @ post)"
    by (intro dropWhile_append2) auto
  also from assms(4,5) have "\<dots> = ?w @ post"
    by (cases w) simp_all
  finally have front: "dropWhile is_space (pre @ ?w @ post) = ?w @ post" .
  from assms(2) whitespace_character
  have "dropWhile is_space (rev post @ rev ?w) = dropWhile is_space (rev ?w)"
    by (intro dropWhile_append2) auto
  also from assms(4,6) have "\<dots> = rev ?w"
    by (cases w rule: rev_cases) simp_all
  finally have "dropWhile is_space (rev (?w @ post)) = rev ?w"
    by simp
  then have "strip (concat pre @ w @ concat post) = concat ?w"
    by (simp add: strip_def split front)
  then show ?thesis
    by (simp add: concat_map_singleton)
qed

lemma chat_while_break:
  assumes "stdin s = line # rest" and "lower L (strip line) = ''quit''"
  shows "chat_while c L s =
         Some (s\<lparr>stdin := rest,
                 stdout := stdout s @ ''\<newline>Query: '' @ ''\<newline>Goodbye!'' @ ''\<newline>''\<rparr>)"
proof -
  from assms have "chat_iteration c L s =
      (True, s\<lparr>stdin := rest,
                 stdout := stdout s @ ''\<newline>Query: '' @ ''\<newline>Goodbye!'' @ ''\<newline>''\<rparr>)"
    by (simp add: chat_iteration_def chat_try_def py_input_def py_print_def)
  then show ?thesis
    by (subst chat_while.simps) simp
qed

lemma chat_while_answer:
  assumes "stdin s = line # rest"
    and "lower L (strip line) \<noteq> ''quit''"
    and "process_query c L (strip line)
           (s\<lparr>stdin := rest, stdout := stdout s @ ''\<newline>Query: ''\<rparr>) = (Inr (Some r), s')"
  shows "chat_while c L s = chat_while c L (py_print (''\<newline>Answer: '' @ r) s')"
proof -
  from assms have "chat_iteration c L s = (False, py_print (''\<newline>Answer: '' @ r) s')"
    by (simp add: chat_iteration_def chat_try_def py_input_def concat_answer_def)
  then show ?thesis
    by (subst chat_while.simps) simp
qed

text \<open>
  A reply without content makes the answer line raise \<^verbatim>\<open>TypeError\<close>, which the same
  handler prints.
\<close>

lemma chat_while_no_content:
  assumes "stdin s = line # rest"
    and "lower L (strip line) \<noteq> ''quit''"
    and "process_query c L (strip line)
           (s\<lparr>stdin := rest, stdout := stdout s @ ''\<newline>Query: ''\<rparr>) = (Inr None, s')"
  shows "chat_while c L s =
         chat_while c L
           (py_print (''\<newline>'' @ cross_mark @ '' Error: can only concatenate str (not ''
                      @ [CHR 0x22] @ ''NoneType'' @ [CHR 0x22] @ '') to str'') s')"
proof -
  from assms have "chat_iteration c L s =
      (False, py_print (''\<newline>'' @ cross_mark @ '' Error: can only concatenate str (not ''
                      @ [CHR 0x22] @ ''NoneType'' @ [CHR 0x22] @ '') to str'') s')"
    by (simp add: chat_iteration_def chat_try_def py_input_def concat_answer_def)
  then show ?thesis
    by (subst chat_while.simps) simp
qed

text \<open>
  At the end of the input every iteration raises \<^verbatim>\<open>EOFError\<close>, prints it and starts
  over: the loop then never returns.
\<close>

lemma chat_iteration_eof:
  assumes "stdin s = []"
  shows "\<exists>s'. chat_iteration c L s = (False, s') \<and> stdin s' = []"
  using assms by (simp add: chat_iteration_def chat_try_def py_input_def py_print_def)

lemma chat_while_returns_after_input:
  assumes "chat_while c L s = Some y"
  shows "stdin s \<noteq> []"
proof (rule chat_while.raw_induct [where P = "\<lambda>c L s y. stdin s \<noteq> []", OF _ assms])
  fix loop :: "'a client \<Rightarrow> pylib \<Rightarrow> 'a state \<Rightarrow> 'a state option"
    and c L s y
  assume IH: "\<And>c L s y. loop c L s = Some y \<Longrightarrow> stdin s \<noteq> []"
    and step: "(case chat_iteration c L s of
                  (brk, s') \<Rightarrow> if brk then Some s' else loop c L s') = Some y"
  show "stdin s \<noteq> []"
  proof
    assume "stdin s = []"
    from chat_iteration_eof [OF this, of c L] obtain s1
      where s1: "chat_iteration c L s = (False, s1)" "stdin s1 = []"
      by blast
    with step have "loop c L s1 = Some y"
      by simp
    from IH [OF this] s1(2) show False
      by simp
  qed
qed

lemma chat_while_eof: "stdin s = [] \<Longrightarrow> chat_while c L s = None"
  using chat_while_returns_after_input [of c L s] by (cases "chat_while c L s") auto

subsection \<open>Facts about the instance\<close>

lemma demo_session_facts:
  "session demo_client = Some demo_session"
  "list_tools demo_session w = (Inr [demo_tool], Suc w)"
  "model demo_client = ''llama3.1''"
  "completions_create demo_client = demo_create"
  by (simp_all add: demo_client_def demo_session_def)

lemma demo_call_tool:
  "call_tool demo_session ''get_knowledge_base'' a w = (Inr [TextContent demo_host_text], Suc w)"
  "call_tool demo_session ''lookup'' a w = (Inr [TextContent ''Unknown tool: lookup''], Suc w)"
  by (simp_all add: demo_session_def)

lemma demo_loads_empty: "json_loads demo_lib ''{}'' = Inr (JDict [])"
  by (simp add: demo_lib_def demo_loads_def)

lemma demo_call_fields:
  "call_id (demo_call i name) = i"
  "call_name (demo_call i name) = name"
  "call_arguments (demo_call i name) = ''{}''"
  by (simp_all add: demo_call_def)

lemma demo_create_final:
  "req_tool_choice req = ''none'' \<Longrightarrow>
   demo_create req w = (Inr [\<lparr>content = Some ''X is a letter.'', tool_calls = None\<rparr>], Suc w)"
  by (simp add: demo_create_def)

lemma demo_create_first:
  "demo_create \<lparr>req_model = mdl, req_messages = [UserMessage ''hello''],
       req_tools = ts, req_tool_choice = ''auto''\<rparr> w
     = (Inr [\<lparr>content = Some ''Hi!'', tool_calls = Some []\<rparr>], Suc w)"
  "demo_create \<lparr>req_model = mdl, req_messages = [UserMessage ''boom''],
       req_tools = ts, req_tool_choice = ''auto''\<rparr> w
     = (Inl (Exn OtherException ''Connection error.''), Suc w)"
  "demo_create \<lparr>req_model = mdl, req_messages = [UserMessage ''What is X?''],
       req_tools = ts, req_tool_choice = ''auto''\<rparr> w
     = (Inr [\<lparr>content = None,
               tool_calls = Some [demo_call ''call_1'' ''get_knowledge_base'']\<rparr>], Suc w)"
  "demo_create \<lparr>req_model = mdl, req_messages = [UserMessage ''twice''],
       req_tools = ts, req_tool_choice = ''auto''\<rparr> w
     = (Inr [\<lparr>content = None,
               tool_calls = Some [demo_call ''call_1'' ''get_knowledge_base'',
                                  demo_call ''call_2'' ''lookup'']\<rparr>], Suc w)"
  by (simp_all add: demo_create_def)

lemma demo_boom:
  "fst (process_query demo_client demo_lib ''boom'' s) = Inl (Exn OtherException ''Connection error.'')"
  by (simp add: process_query_def get_mcp_tools_def session_list_tools_def
      chat_completions_create_def demo_session_facts demo_create_first)

lemma demo_hello:
  "fst (process_query demo_client demo_lib ''hello'' s) = Inr (Some ''Hi!'')"
  by (simp add: process_query_def get_mcp_tools_def session_list_tools_def
      chat_completions_create_def first_choice_def demo_session_facts demo_create_first)

lemma strip_plain:
  "strip ''boom'' = ''boom''" "strip ''hello'' = ''hello''" "strip ''quit'' = ''quit''"
  using strip_surrounded [of "[]" "[]" "''boom''"] strip_surrounded [of "[]" "[]" "''hello''"]
    strip_surrounded [of "[]" "[]" "''quit''"]
  by (simp_all add: is_ascii_def is_space_def code_point_def)

lemma lower_plain:
  "lower L ''boom'' = ''boom''" "lower L ''hello'' = ''hello''" "lower L ''quit'' = ''quit''"
  by (simp_all add: lower_def is_ascii_def lower_char_def)

subsection \<open>The claims\<close>

text \<open>
  Claim C1. Let the Tool Host list its tools and the first completion reply ask for
  the single call \<^verbatim>\<open>get_knowledge_base\<close> with arguments that parse to the empty object;
  let the Tool Host answer that call with a result whose first element is a text, and
  the endpoint answer the second request. Then \<^verbatim>\<open>process_query\<close> makes exactly one
  invocation of the Tool Host, sends as second request the user message, the
  assistant message and one tool message with the identifier of the call and that text,
  with \<^verbatim>\<open>tool_choice\<close> set to \<^verbatim>\<open>none\<close>, and returns the content of the reply to it.
\<close>

theorem process_query_one_tool_call:
  assumes "session c = Some sess"
    and "list_tools sess (world s) = (Inr tools, w1)"
    and "completions_create c (first_request c query tools) w1 = (Inr (m # others), w2)"
    and "tool_calls m = Some [tc]"
    and "call_name tc = ''get_knowledge_base''"
    and "json_loads L (call_arguments tc) = Inr (JDict [])"
    and "call_tool sess ''get_knowledge_base'' (JDict []) w2 = (Inr (TextContent text # extra), w3)"
    and "completions_create c
           (second_request c [UserMessage query, AssistantMessage m, ToolMessage (call_id tc) text] tools)
           w3 = (Inr (final # others'), w4)"
  shows "process_query c L query s =
           (Inr (content final),
            s\<lparr>world := w4,
              trace := trace s @
                [EvProcessQuery query,
                 EvListTools (Inr tools),
                 EvCreate (first_request c query tools) (Inr (m # others)),
                 EvCallTool ''get_knowledge_base'' (JDict []) (Inr (TextContent text # extra)),
                 EvCreate \<lparr>req_model = model c,
                           req_messages = [UserMessage query, AssistantMessage m,
                                           ToolMessage (call_id tc) text],
                           req_tools = map openai_format tools,
                           req_tool_choice = ''none''\<rparr>
                          (Inr (final # others'))]\<rparr>)
         \<and> invocations (trace (snd (process_query c L query s))) =
             invocations (trace s)
             @ [EvCallTool ''get_knowledge_base'' (JDict []) (Inr (TextContent text # extra))]"
proof -
  have run: "process_query c L query s =
           (Inr (content final),
            s\<lparr>world := w4,
              trace := trace s @
                [EvProcessQuery query,
                 EvListTools (Inr tools),
                 EvCreate (first_request c query tools) (Inr (m # others)),
                 EvCallTool ''get_knowledge_base'' (JDict []) (Inr (TextContent text # extra)),
                 EvCreate (second_request c [UserMessage query, AssistantMessage m,
                                           ToolMessage (call_id tc) text] tools)
                          (Inr (final # others'))]\<rparr>)"
    using assms(5-8)
    by (simp add: process_query_with_calls [OF assms(1-4)] session_call_tool_def assms(1)
        first_text_def chat_completions_create_def first_choice_def)
  show ?thesis
    by (simp add: run invocations_def)
qed

theorem process_query_one_tool_call_witness:
  "fst (process_query demo_client demo_lib ''What is X?'' (demo_state []))
     = Inr (Some ''X is a letter.'')
   \<and> invocations (trace (snd (process_query demo_client demo_lib ''What is X?'' (demo_state []))))
     = [EvCallTool ''get_knowledge_base'' (JDict []) (Inr [TextContent demo_host_text])]"
proof -
  let ?tc = "demo_call ''call_1'' ''get_knowledge_base''"
  let ?m = "\<lparr>content = None, tool_calls = Some [?tc]\<rparr>"
  have listed: "list_tools demo_session (world (demo_state [])) = (Inr [demo_tool], Suc 0)"
    by (simp add: demo_session_facts demo_state_def)
  have asked: "completions_create demo_client (first_request demo_client ''What is X?'' [demo_tool])
      (Suc 0) = (Inr (?m # []), Suc (Suc 0))"
    by (simp add: demo_session_facts(4) demo_create_first)
  have one: "tool_calls ?m = Some [?tc]"
    by simp
  have called: "call_tool demo_session ''get_knowledge_base'' (JDict []) (Suc (Suc 0))
      = (Inr (TextContent demo_host_text # []), Suc (Suc (Suc 0)))"
    by (simp add: demo_call_tool)
  have final: "completions_create demo_client
      (second_request demo_client
         [UserMessage ''What is X?'', AssistantMessage ?m, ToolMessage (call_id ?tc) demo_host_text]
         [demo_tool])
      (Suc (Suc (Suc 0)))
      = (Inr (\<lparr>content = Some ''X is a letter.'', tool_calls = None\<rparr> # []),
         Suc (Suc (Suc (Suc 0))))"
    by (simp add: demo_session_facts(4) demo_create_final)
  have args: "json_loads demo_lib (call_arguments ?tc) = Inr (JDict [])"
    by (simp add: demo_call_fields demo_loads_empty)
  show ?thesis
    using process_query_one_tool_call
            [OF demo_session_facts(1) listed asked one demo_call_fields(2) args called final]
    by (simp add: demo_state_def invocations_def)
qed

text \<open>
  Claim C2. When the first completion reply has no tool calls (the field is \<^verbatim>\<open>None\<close>
  or an empty list), \<^verbatim>\<open>process_query\<close> returns the content of that reply as it is, and
  the trace gains no invocation of the Tool Host: only the listing of the tools and the
  one completion request.
\<close>

theorem process_query_no_tool_calls:
  assumes "session c = Some sess"
    and "list_tools sess (world s) = (Inr tools, w1)"
    and "completions_create c (first_request c query tools) w1 = (Inr (m # others), w2)"
    and "tool_calls m = None \<or> tool_calls m = Some []"
  shows "process_query c L query s =
           (Inr (content m),
            s\<lparr>world := w2,
              trace := trace s @ [EvProcessQuery query, EvListTools (Inr tools),
                                  EvCreate (first_request c query tools) (Inr (m # others))]\<rparr>)
         \<and> invocations (trace (snd (process_query c L query s))) = invocations (trace s)"
proof -
  have run: "process_query c L query s =
           (Inr (content m),
            s\<lparr>world := w2,
              trace := trace s @ [EvProcessQuery query, EvListTools (Inr tools),
                                  EvCreate (first_request c query tools) (Inr (m # others))]\<rparr>)"
    using assms(3,4)
    by (auto simp add: process_query_def get_mcp_tools_listed [OF assms(1)] assms(2)
        chat_completions_create_answered first_choice_def)
  show ?thesis
    by (simp add: run invocations_def)
qed

theorem process_query_no_tool_calls_witness:
  "fst (process_query demo_client demo_lib ''hello'' (demo_state [])) = Inr (Some ''Hi!'')
   \<and> invocations (trace (snd (process_query demo_client demo_lib ''hello'' (demo_state [])))) = []"
proof -
  have listed: "list_tools demo_session (world (demo_state [])) = (Inr [demo_tool], Suc 0)"
    by (simp add: demo_session_facts demo_state_def)
  have answered: "completions_create demo_client (first_request demo_client ''hello'' [demo_tool]) (Suc 0)
      = (Inr (\<lparr>content = Some ''Hi!'', tool_calls = Some []\<rparr> # []), Suc (Suc 0))"
    by (simp add: demo_session_facts(4) demo_create_first)
  have none: "tool_calls \<lparr>content = Some ''Hi!'', tool_calls = Some []\<rparr> = None
      \<or> tool_calls \<lparr>content = Some ''Hi!'', tool_calls = Some []\<rparr> = Some []"
    by simp
  show ?thesis
    using process_query_no_tool_calls [OF demo_session_facts(1) listed answered none, of demo_lib]
    by (simp add: demo_state_def invocations_def)
qed

text \<open>
  Claim C3. Let the first completion reply carry the tool calls \<open>tcs\<close>, let the
  argument text of each parse, let the Tool Host, asked these calls one after the other
  in the order of \<open>tcs\<close>, answer each with a result that starts with a text, and let
  the endpoint answer the second request. Then the invocations that \<^verbatim>\<open>process_query\<close>
  makes are exactly these, in that order, each with the result the host gave to it, and
  the world ends where that sequence of calls and the second request leave it. The
  messages of the second request are the user message, the assistant message, and one
  tool message per call in the same order, each with the identifier of its call and the
  text of the first element of the result of its own invocation.
\<close>

theorem process_query_calls_in_order:
  assumes "session c = Some sess"
    and "list_tools sess (world s) = (Inr tools, w1)"
    and "completions_create c (first_request c query tools) w1 = (Inr (m # others), w2)"
    and "tool_calls m = Some tcs" and "tcs \<noteq> []"
    and "list_all2 (\<lambda>tc r. json_loads L (call_arguments tc) = Inr (fst r)) tcs rs"
    and "host_run sess (map2 (\<lambda>tc r. (call_name tc, fst r)) tcs rs) w2 =
           (map (\<lambda>(a, t, extra). Inr (TextContent t # extra)) rs, w3)"
    and "completions_create c
           (second_request c
              ([UserMessage query, AssistantMessage m] @ map2 tool_message_of tcs rs) tools)
           w3 = (Inr (final # others'), w4)"
  shows "process_query c L query s =
           (Inr (content final),
            s\<lparr>world := w4,
              trace := trace s @
                [EvProcessQuery query, EvListTools (Inr tools),
                 EvCreate (first_request c query tools) (Inr (m # others))]
                @ map2 invocation_of tcs rs
                @ [EvCreate \<lparr>req_model = model c,
                             req_messages = [UserMessage query, AssistantMessage m]
                                            @ map2 tool_message_of tcs rs,
                             req_tools = map openai_format tools,
                             req_tool_choice = ''none''\<rparr>
                            (Inr (final # others'))]\<rparr>)
         \<and> invocations (trace (snd (process_query c L query s))) =
             invocations (trace s) @ map2 invocation_of tcs rs"
proof -
  let ?s2 = "s\<lparr>world := w2,
                trace := trace s @ [EvProcessQuery query, EvListTools (Inr tools),
                                    EvCreate (first_request c query tools) (Inr (m # others))]\<rparr>"
  have "host_run sess (map2 (\<lambda>tc r. (call_name tc, fst r)) tcs rs) (world ?s2) =
          (map (\<lambda>(a, t, extra). Inr (TextContent t # extra)) rs, w3)"
    using assms(7) by simp
  note loop = call_tools_run [OF assms(1,6) this, of "[UserMessage query, AssistantMessage m]"]
  have run: "process_query c L query s =
           (Inr (content final),
            s\<lparr>world := w4,
              trace := trace s @
                [EvProcessQuery query, EvListTools (Inr tools),
                 EvCreate (first_request c query tools) (Inr (m # others))]
                @ map2 invocation_of tcs rs
                @ [EvCreate (second_request c
                     ([UserMessage query, AssistantMessage m] @ map2 tool_message_of tcs rs) tools)
                            (Inr (final # others'))]\<rparr>)"
    using assms(8)
    by (simp add: process_query_with_calls [OF assms(1-5)] loop chat_completions_create_def
        first_choice_def)
  have all_invocations: "invocations (map2 invocation_of tcs rs) = map2 invocation_of tcs rs"
    by (auto simp add: invocations_def invocation_of_def filter_id_conv in_set_zip)
  have "invocations (trace (snd (process_query c L query s))) =
          invocations (trace s) @ map2 invocation_of tcs rs"
  proof -
    have "invocations (trace s @
                [EvProcessQuery query, EvListTools (Inr tools),
                 EvCreate (first_request c query tools) (Inr (m # others))]
                @ map2 invocation_of tcs rs
                @ [EvCreate (second_request c
                     ([UserMessage query, AssistantMessage m] @ map2 tool_message_of tcs rs) tools)
                            (Inr (final # others'))])
          = invocations (trace s) @ invocations (map2 invocation_of tcs rs)"
      by (simp add: invocations_def)
    then show ?thesis
      by (simp add: run all_invocations)
  qed
  with run show ?thesis
    by simp
qed

theorem process_query_calls_in_order_witness:
  "fst (process_query demo_client demo_lib ''twice'' (demo_state []))
     = Inr (Some ''X is a letter.'')
   \<and> invocations (trace (snd (process_query demo_client demo_lib ''twice'' (demo_state []))))
     = [EvCallTool ''get_knowledge_base'' (JDict []) (Inr [TextContent demo_host_text]),
        EvCallTool ''lookup'' (JDict []) (Inr [TextContent ''Unknown tool: lookup''])]
   \<and> world (snd (process_query demo_client demo_lib ''twice'' (demo_state []))) = 5"
proof -
  let ?tcs = "[demo_call ''call_1'' ''get_knowledge_base'', demo_call ''call_2'' ''lookup'']"
  let ?rs = "[(JDict [], demo_host_text, []), (JDict [], ''Unknown tool: lookup'', [])]"
  let ?m = "\<lparr>content = None, tool_calls = Some ?tcs\<rparr>"
  have listed: "list_tools demo_session (world (demo_state [])) = (Inr [demo_tool], Suc 0)"
    by (simp add: demo_session_facts demo_state_def)
  have asked: "completions_create demo_client (first_request demo_client ''twice'' [demo_tool])
      (Suc 0) = (Inr (?m # []), Suc (Suc 0))"
    by (simp add: demo_session_facts(4) demo_create_first)
  have calls: "tool_calls ?m = Some ?tcs"
    by simp
  have some: "?tcs \<noteq> []"
    by simp
  have parsed: "list_all2 (\<lambda>tc r. json_loads demo_lib (call_arguments tc) = Inr (fst r)) ?tcs ?rs"
    by (simp add: demo_call_fields demo_loads_empty)
  have host: "host_run demo_session (map2 (\<lambda>tc r. (call_name tc, fst r)) ?tcs ?rs) (Suc (Suc 0))
      = (map (\<lambda>(a, t, extra). Inr (TextContent t # extra)) ?rs, Suc (Suc (Suc (Suc 0))))"
    by (simp add: demo_call_fields demo_call_tool)
  have final: "completions_create demo_client
      (second_request demo_client
         ([UserMessage ''twice'', AssistantMessage ?m] @ map2 tool_message_of ?tcs ?rs)
         [demo_tool])
      (Suc (Suc (Suc (Suc 0))))
      = (Inr (\<lparr>content = Some ''X is a letter.'', tool_calls = None\<rparr> # []),
         Suc (Suc (Suc (Suc (Suc 0)))))"
    by (simp add: demo_session_facts(4) demo_create_final)
  show ?thesis
    using process_query_calls_in_order
            [OF demo_session_facts(1) listed asked calls some parsed host final]
    by (simp add: demo_state_def invocations_def invocation_of_def tool_message_of_def
        demo_call_fields)
qed

text \<open>
  Claim C8. When \<^verbatim>\<open>process_query\<close> raises on the line just read, the iteration ends
  without \<^verbatim>\<open>break\<close> and without an exception: the error line is printed, the loop
  goes on from the state so reached, and the lines not yet read are still on the input.
\<close>

theorem chat_loop_survives_exception:
  assumes "stdin s = line # rest"
    and "lower L (strip line) \<noteq> ''quit''"
    and "process_query c L (strip line)
           (s\<lparr>stdin := rest, stdout := stdout s @ ''\<newline>Query: ''\<rparr>) = (Inl e, s')"
  shows "chat_iteration c L s =
           (False, py_print (''\<newline>'' @ cross_mark @ '' Error: '' @ exn_str e) s')
         \<and> chat_while c L s =
             chat_while c L (py_print (''\<newline>'' @ cross_mark @ '' Error: '' @ exn_str e) s')
         \<and> stdin (py_print (''\<newline>'' @ cross_mark @ '' Error: '' @ exn_str e) s') = rest"
proof -
  from assms have iteration: "chat_iteration c L s =
           (False, py_print (''\<newline>'' @ cross_mark @ '' Error: '' @ exn_str e) s')"
    by (simp add: chat_iteration_def chat_try_def py_input_def)
  then have loop: "chat_while c L s =
             chat_while c L (py_print (''\<newline>'' @ cross_mark @ '' Error: '' @ exn_str e) s')"
    by (subst chat_while.simps) simp
  from process_query_console [OF assms(3)]
  have "stdin (py_print (''\<newline>'' @ cross_mark @ '' Error: '' @ exn_str e) s') = rest"
    by (simp add: py_print_def)
  with iteration loop show ?thesis
    by simp
qed

theorem chat_loop_survives_exception_witness:
  "map_option (\<lambda>s. (stdin s, stdout s))
     (chat_while demo_client demo_lib (demo_state [''boom'', ''hello'', ''quit''])) =
   Some ([],
         ''\<newline>Query: \<newline>'' @ cross_mark @ '' Error: Connection error.\<newline>''
         @ ''\<newline>Query: \<newline>Answer: Hi!\<newline>''
         @ ''\<newline>Query: \<newline>Goodbye!\<newline>'')"
proof -
  define s0 where "s0 = demo_state [''boom'', ''hello'', ''quit'']"
  define run0 where "run0 = process_query demo_client demo_lib (strip ''boom'')
      (s0\<lparr>stdin := [''hello'', ''quit''], stdout := stdout s0 @ ''\<newline>Query: ''\<rparr>)"
  define s1 where "s1 = py_print (''\<newline>'' @ cross_mark @ '' Error: ''
      @ exn_str (Exn OtherException ''Connection error.'')) (snd run0)"
  define run1 where "run1 = process_query demo_client demo_lib (strip ''hello'')
      (s1\<lparr>stdin := [''quit''], stdout := stdout s1 @ ''\<newline>Query: ''\<rparr>)"
  define s2 where "s2 = py_print (''\<newline>Answer: '' @ ''Hi!'') (snd run1)"
  have line0: "stdin s0 = ''boom'' # [''hello'', ''quit'']" and out0: "stdout s0 = []"
    by (simp_all add: s0_def demo_state_def)
  have no_quit: "lower demo_lib (strip ''boom'') \<noteq> ''quit''"
    "lower demo_lib (strip ''hello'') \<noteq> ''quit''"
    by (simp_all add: strip_plain lower_plain)
  have raised: "process_query demo_client demo_lib (strip ''boom'')
      (s0\<lparr>stdin := [''hello'', ''quit''], stdout := stdout s0 @ ''\<newline>Query: ''\<rparr>)
      = (Inl (Exn OtherException ''Connection error.''), snd run0)"
    by (simp add: prod_eq_iff strip_plain demo_boom run0_def)
  note first = chat_loop_survives_exception [OF line0 no_quit(1) raised, folded s1_def]
  from first have line1: "stdin s1 = ''hello'' # [''quit'']"
    by simp
  from process_query_console [OF raised] have out1:
    "stdout s1 = ''\<newline>Query: \<newline>'' @ cross_mark @ '' Error: Connection error.\<newline>''"
    by (simp add: s1_def py_print_def out0)
  have answered: "process_query demo_client demo_lib (strip ''hello'')
      (s1\<lparr>stdin := [''quit''], stdout := stdout s1 @ ''\<newline>Query: ''\<rparr>)
      = (Inr (Some ''Hi!''), snd run1)"
    by (simp add: prod_eq_iff strip_plain demo_hello run1_def)
  note second = chat_while_answer [OF line1 no_quit(2) answered, folded s2_def]
  from process_query_console [OF answered] have console2:
    "stdin s2 = ''quit'' # []" "stdout s2 = stdout s1 @ ''\<newline>Query: \<newline>Answer: Hi!\<newline>''"
    by (simp_all add: s2_def py_print_def)
  have quit: "lower demo_lib (strip ''quit'') = ''quit''"
    by (simp add: strip_plain lower_plain)
  note third = chat_while_break [OF console2(1) quit, of demo_client]
  from first second third
  have "chat_while demo_client demo_lib s0 =
      Some (s2\<lparr>stdin := [],
                 stdout := stdout s2 @ ''\<newline>Query: '' @ ''\<newline>Goodbye!'' @ ''\<newline>''\<rparr>)"
    by simp
  then show ?thesis
    by (simp add: s0_def [symmetric] console2 out1)
qed

text \<open>
  Claim C9. When the next input line is \<^verbatim>\<open>quit\<close> in some letter case, between any
  number of whitespace characters on either side (those of ASCII and those beyond), the
  loop returns: it has printed the prompt and the farewell, the rest of the input is
  untouched, and the world and the trace are as before, so \<^verbatim>\<open>process_query\<close> was not
  entered and nothing was called.
\<close>

theorem chat_loop_quit:
  assumes "stdin s = (concat pre @ w @ concat post) # rest"
    and "set pre \<subseteq> set unicode_whitespace" and "set post \<subseteq> set unicode_whitespace"
    and "quit_in_any_case w"
  shows "chat_while c L s =
         Some (s\<lparr>stdin := rest,
                 stdout := stdout s @ ''\<newline>Query: '' @ ''\<newline>Goodbye!'' @ ''\<newline>''\<rparr>)"
proof -
  from quit_in_any_case_word [OF assms(4), of L] assms(2,3)
  have "lower L (strip (concat pre @ w @ concat post)) = ''quit''"
    by (simp add: strip_surrounded)
  with assms(1) show ?thesis
    by (rule chat_while_break)
qed

theorem chat_loop_quit_witness:
  "chat_while demo_client demo_lib
     (demo_state [[CHR 0xC2, CHR 0xA0, CHR 0x09] @ ''QuIt'' @ [CHR 0xE3, CHR 0x80, CHR 0x80, CHR 0x20],
                  ''next'']) =
     Some \<lparr>world = 0, trace = [], stdin = [''next''],
           stdout = ''\<newline>Query: \<newline>Goodbye!\<newline>''\<rparr>"
proof -
  have line: "stdin (demo_state [[CHR 0xC2, CHR 0xA0, CHR 0x09] @ ''QuIt''
                                   @ [CHR 0xE3, CHR 0x80, CHR 0x80, CHR 0x20], ''next''])
      = (concat [[CHR 0xC2, CHR 0xA0], [CHR 0x09]] @ ''QuIt''
         @ concat [[CHR 0xE3, CHR 0x80, CHR 0x80], [CHR 0x20]]) # [''next'']"
    by (simp add: demo_state_def)
  have pre: "set [[CHR 0xC2, CHR 0xA0], [CHR 0x09]] \<subseteq> set unicode_whitespace"
    and post: "set [[CHR 0xE3, CHR 0x80, CHR 0x80], [CHR 0x20]] \<subseteq> set unicode_whitespace"
    by (simp_all add: unicode_whitespace_def)
  have word: "quit_in_any_case ''QuIt''"
    by (simp add: quit_in_any_case_def)
  show ?thesis
    using chat_loop_quit [OF line pre post word, of demo_client demo_lib]
    by (simp add: demo_state_def)
qed

end
